theory Spec2Isabelle
  imports Complex_Main "HOL-Library.Word" "HOL-Library.Sublist" "HOL-Library.Multiset"
begin

unbundle bit_operations_syntax

section \<open>Data model of lib/storage/partition.go\<close>

text \<open>
  The partition engine is embedded sequentially: every lock is a no-op, every Go function
  that mutates the partition takes the state and returns the new one, and a panic
  (\<open>logger.Panicf\<close>, a nil dereference) is a value of the result type.
\<close>

type_synonym uint64 = "64 word"

text \<open>A \<open>*partWrapper\<close> is an address into the store of handles.\<close>

type_synonym addr = nat

text \<open>
  \<open>partHeader\<close>, \<open>part\<close> and \<open>inmemoryPart\<close> are declared in other files of the
  package; only the fields that partition.go reads are kept. Timestamps are \<open>int64\<close>
  values that are only compared, never computed with.
\<close>

record partHeader =
  RowsCount :: uint64
  MinTimestamp :: int
  MaxTimestamp :: int

record part =
  part_ph :: partHeader
  part_path :: string

record inmemoryPart =
  mp_ph :: partHeader
  creationTime :: int

text \<open>\<open>rawRow\<close>: the TSID and the value are never read by partition.go.\<close>

record rawRow =
  Timestamp :: int
  PrecisionBits :: "8 word"

text \<open>
  \<open>partWrapper\<close>. The fields \<open>p\<close> and \<open>mp\<close> are pointers: \<open>None\<close> is \<open>nil\<close>.
\<close>

record partWrapper =
  pw_p :: "part option"
  pw_mp :: "inmemoryPart option"
  refCount :: uint64
  isInMerge :: bool

datatype error = errNothingToMerge | errForciblyStopped | errOther string

text \<open>What a Go call does: it returns a value, or it panics.\<close>

datatype 'a outcome = Return 'a | Panic string

text \<open>
  Calls into collaborators that only have an effect outside the partition are recorded
  in a trace.
\<close>

datatype event =
    PutInmemoryPart inmemoryPart
  | PartMustClose part
  | OpenFilePart string
  | WriteFile string string
  | InitWriter string bool int

text \<open>
  The partition (the fields of \<open>partition\<close> that the modelled functions use), together
  with the process-wide state it works on: the store of handles, the pools of raw-row
  buffers (a pooled buffer is empty, so only its capacity is kept), the trace and the
  file system.
\<close>

record 'fs state =
  smallPartsPath :: string
  bigPartsPath :: string
  tr_MinTimestamp :: int
  tr_MaxTimestamp :: int
  smallParts :: "addr list"
  bigParts :: "addr list"
  rawRows :: "rawRow list"
  rawRows_cap :: nat
  rawRowsLastFlushTime :: int
  mergeIdx :: uint64
  activeSmallMerges :: uint64
  smallMergesCount :: uint64
  bigRowsMerged :: uint64
  smallRowsMerged :: uint64
  bigRowsDeleted :: uint64
  smallRowsDeleted :: uint64
  smallAssistedMerges :: uint64
  heap :: "addr \<Rightarrow> partWrapper"
  heap_next :: addr
  rawRowsPools :: "nat \<Rightarrow> nat list"
  trace :: "event list"
  fs :: 'fs

section \<open>Reference counting\<close>

definition upd_pw :: "addr \<Rightarrow> (partWrapper \<Rightarrow> partWrapper) \<Rightarrow> 'fs state \<Rightarrow> 'fs state" where
  "upd_pw a f s = s\<lparr>heap := (heap s)(a := f (heap s a))\<rparr>"

definition emit :: "event \<Rightarrow> 'fs state \<Rightarrow> 'fs state" where
  "emit e s = s\<lparr>trace := trace s @ [e]\<rparr>"

definition incRef :: "addr \<Rightarrow> 'fs state \<Rightarrow> 'fs state" where
  "incRef a s = upd_pw a (\<lambda>pw. pw\<lparr>refCount := refCount pw + 1\<rparr>) s"

text \<open>
  \<open>decRef\<close>: \<open>atomic.AddUint64(&pw.refCount, ^uint64(0))\<close> adds \<open>2^64 - 1\<close>, and
  \<open>int64(n) < 0\<close> reads the result as two's complement.
\<close>

definition decRef :: "addr \<Rightarrow> 'fs state \<Rightarrow> unit outcome \<times> 'fs state" where
  "decRef a s =
     (let n = refCount (heap s a) + NOT 0;
          s1 = upd_pw a (\<lambda>pw. pw\<lparr>refCount := n\<rparr>) s
      in if sint n < 0 then (Panic ''BUG: pw.refCount must be bigger than 0'', s1)
         else if n > 0 then (Return (), s1)
         else
           let s2 = (case pw_mp (heap s1 a) of
                       Some m \<Rightarrow> upd_pw a (\<lambda>pw. pw\<lparr>pw_mp := None\<rparr>) (emit (PutInmemoryPart m) s1)
                     | None \<Rightarrow> s1)
           in case pw_p (heap s2 a) of
                None \<Rightarrow> (Panic ''nil pointer dereference'', s2)
              | Some pp \<Rightarrow>
                  (Return (), upd_pw a (\<lambda>pw. pw\<lparr>pw_p := None\<rparr>) (emit (PartMustClose pp) s2)))"

section \<open>The float64 values of the merge planner\<close>

text \<open>
  \<open>appendPartsToMerge\<close> computes its score in \<open>float64\<close>. The values it can form are
  conversions of unsigned integers and one quotient of two of them, so a float is
  modelled as \<open>NaN\<close>, \<open>+Inf\<close> or a non-negative rational, and every operation rounds
  to 53 significant bits, to nearest, ties to even (IEEE 754 binary64; the exponent
  range is never left by a quotient of two 64-bit integers).
\<close>

datatype float64 = NaN | PInf | Fin rat

fun bitlen_nat :: "nat \<Rightarrow> nat" where
  "bitlen_nat n = (if n = 0 then 0 else Suc (bitlen_nat (n div 2)))"

declare bitlen_nat.simps [simp del]

definition round_half_even :: "nat \<Rightarrow> nat \<Rightarrow> nat" where
  "round_half_even num den =
     (let q = num div den; r = num mod den
      in if 2 * r < den then q
         else if den < 2 * r then q + 1
         else if even q then q else q + 1)"

text \<open>\<open>float64(x)\<close> for an unsigned integer \<open>x\<close>: the value is again a natural number.\<close>

definition round53 :: "nat \<Rightarrow> nat" where
  "round53 n =
     (if n < 2 ^ 53 then n
      else let sh = bitlen_nat n - 53 in round_half_even n (2 ^ sh) * 2 ^ sh)"

definition f64_of_uint64 :: "uint64 \<Rightarrow> nat" where
  "f64_of_uint64 x = round53 (unat x)"

text \<open>
  The correctly rounded quotient \<open>a / b\<close> of two positive naturals: \<open>e\<close> is the binary
  exponent of the exact quotient, and the quotient is rounded to a multiple of
  \<open>2 ^ (e - 52)\<close>.
\<close>

definition pow2 :: "int \<Rightarrow> nat" where
  "pow2 x = (if 0 \<le> x then 2 ^ nat x else 1)"

definition f64_quot :: "nat \<Rightarrow> nat \<Rightarrow> rat" where
  "f64_quot a b =
     (let e0 = int (bitlen_nat a) - int (bitlen_nat b);
          e = (if b * pow2 e0 \<le> a * pow2 (- e0) then e0 else e0 - 1);
          sh = 52 - e;
          r = round_half_even (a * pow2 sh) (b * pow2 (- sh))
      in of_nat (r * pow2 (- sh)) / of_nat (pow2 sh))"

text \<open>Division of two floats whose values are natural numbers: \<open>0/0\<close> is NaN.\<close>

definition f64_div :: "nat \<Rightarrow> nat \<Rightarrow> float64" where
  "f64_div a b =
     (if b = 0 then (if a = 0 then NaN else PInf)
      else if a = 0 then Fin 0
      else Fin (f64_quot a b))"

text \<open>The comparison \<open><\<close> of two floats: false as soon as one side is NaN.\<close>

fun f64_less :: "float64 \<Rightarrow> float64 \<Rightarrow> bool" where
  "f64_less (Fin x) (Fin y) = (x < y)"
| "f64_less (Fin x) PInf = True"
| "f64_less _ _ = False"

section \<open>The merge planner\<close>

text \<open>
  \<open>appendPartsToMerge\<close> only reads the part header behind each handle, so it is stated
  over any type of handles with the function \<open>hdr\<close> that reads \<open>pw.p.ph\<close>.

  \<open>sort.Slice\<close> is not stable: the order it leaves between two handles with the same
  rows count and the same \<open>MinTimestamp\<close> is not determined by the source. The sort is
  the parameter \<open>srt\<close>; \<open>sorts_by\<close> says what the source relies on.
\<close>

definition less_ph :: "partHeader \<Rightarrow> partHeader \<Rightarrow> bool" where
  "less_ph a b =
     (if RowsCount a < RowsCount b then True
      else if RowsCount a > RowsCount b then False
      else MinTimestamp a > MinTimestamp b)"

definition sorts_by :: "('a \<Rightarrow> partHeader) \<Rightarrow> ('a list \<Rightarrow> 'a list) \<Rightarrow> bool" where
  "sorts_by hdr srt =
     (\<forall>xs. mset (srt xs) = mset xs \<and> sorted_wrt (\<lambda>x y. \<not> less_ph (hdr y) (hdr x)) (srt xs))"

fun insort_ph :: "('a \<Rightarrow> partHeader) \<Rightarrow> 'a \<Rightarrow> 'a list \<Rightarrow> 'a list" where
  "insort_ph hdr x [] = [x]"
| "insort_ph hdr x (y # ys) =
     (if less_ph (hdr y) (hdr x) then y # insort_ph hdr x ys else x # y # ys)"

definition sort_ph :: "('a \<Rightarrow> partHeader) \<Rightarrow> 'a list \<Rightarrow> 'a list" where
  "sort_ph hdr xs = foldr (insort_ph hdr) xs []"

text \<open>The window \<open>src[j : j+i]\<close> and its \<open>rowsSum\<close>, a \<open>uint64\<close> that wraps.\<close>

definition window :: "'a list \<Rightarrow> nat \<Rightarrow> nat \<Rightarrow> 'a list" where
  "window src i j = take i (drop j src)"

definition rowsSum :: "('a \<Rightarrow> partHeader) \<Rightarrow> 'a list \<Rightarrow> uint64" where
  "rowsSum hdr w = foldl (\<lambda>acc pw. acc + RowsCount (hdr pw)) 0 w"

definition score :: "('a \<Rightarrow> partHeader) \<Rightarrow> 'a list \<Rightarrow> nat \<Rightarrow> nat \<Rightarrow> float64" where
  "score hdr src i j =
     f64_div (f64_of_uint64 (rowsSum hdr (window src i j)))
             (f64_of_uint64 (RowsCount (hdr (src ! (j + i - 1)))))"

text \<open>One pass of the body of the inner loop, on the pair \<open>(maxM, pws)\<close>.\<close>

definition searchStep ::
  "('a \<Rightarrow> partHeader) \<Rightarrow> 'a list \<Rightarrow> uint64 \<Rightarrow> float64 \<times> 'a list \<Rightarrow> nat \<times> nat \<Rightarrow> float64 \<times> 'a list" where
  "searchStep hdr src maxRows st ij =
     (case ij of (i, j) \<Rightarrow>
        if rowsSum hdr (window src i j) > maxRows then st
        else let m = score hdr src i j
             in if f64_less m (fst st) then st else (m, window src i j))"

text \<open>
  The pairs \<open>(i, j)\<close> in the order the two loops visit them:
  \<open>for i := 2; i <= n; i++ { for j := 0; j <= len(src)-i; j++ {\<close>.
\<close>

definition windows :: "nat \<Rightarrow> nat \<Rightarrow> (nat \<times> nat) list" where
  "windows n len = concat (map (\<lambda>i. map (\<lambda>j. (i, j)) [0..<Suc (len - i)]) [2..<Suc n])"

definition minM :: "int \<Rightarrow> float64" where
  "minM maxPartsToMerge =
     (let m = Fin (of_nat (round53 (nat (maxPartsToMerge div 2))))
      in if f64_less m (Fin 2) then Fin 2 else m)"

definition appendPartsToMerge ::
  "('a list \<Rightarrow> 'a list) \<Rightarrow> ('a \<Rightarrow> partHeader) \<Rightarrow> 'a list \<Rightarrow> 'a list \<Rightarrow> int \<Rightarrow> uint64 \<Rightarrow> 'a list outcome" where
  "appendPartsToMerge srt hdr dst src0 maxPartsToMerge maxRows =
     (if length src0 < 2 then Return dst
      else if maxPartsToMerge < 2 then Panic ''BUG: maxPartsToMerge cannot be smaller than 2''
      else
        let maxInPartRows = maxRows div 2;
            src = srt (filter (\<lambda>pw. \<not> RowsCount (hdr pw) > maxInPartRows) src0);
            n = (if int (length src) < maxPartsToMerge then length src else nat maxPartsToMerge);
            (maxM, pws) = foldl (searchStep hdr src maxRows) (Fin 0, []) (windows n (length src))
        in if f64_less maxM (minM maxPartsToMerge) then Return dst
           else Return (dst @ pws))"

section \<open>Collaborators\<close>

text \<open>
  What partition.go calls and does not define: the operating system, \<open>lib/fs\<close>, and
  the part readers and writers of the package. Each is a parameter; the file system
  they work on is the type \<open>'fs\<close>. An operation that can fail returns whether it
  succeeded together with the file system it leaves.
\<close>

datatype bsrc = FromInmemoryPart inmemoryPart | FromFilePart string

record 'fs env =
  os_Getwd :: "string option"
  ioutil_ReadFile :: "string \<Rightarrow> 'fs \<Rightarrow> string option"
  os_RemoveAll :: "string \<Rightarrow> 'fs \<Rightarrow> bool \<times> 'fs"
  os_Rename :: "string \<Rightarrow> string \<Rightarrow> 'fs \<Rightarrow> bool \<times> 'fs"
  os_Remove :: "string \<Rightarrow> 'fs \<Rightarrow> bool \<times> 'fs"
  fs_IsPathExist :: "string \<Rightarrow> 'fs \<Rightarrow> bool"
  fs_SyncPath :: "string \<Rightarrow> 'fs \<Rightarrow> 'fs"
  fs_WriteFile :: "string \<Rightarrow> string \<Rightarrow> 'fs \<Rightarrow> bool \<times> 'fs"
  time_Now :: int
  memory_Allowed :: int
  sizeof_rawRow :: int
  CheckPrecisionBits :: "8 word \<Rightarrow> bool"
  sort_Slice :: "(addr \<Rightarrow> partHeader) \<Rightarrow> addr list \<Rightarrow> addr list"
  InitFromRows :: "rawRow list \<Rightarrow> inmemoryPart"
  NewPart :: "inmemoryPart \<Rightarrow> part option"
  bsr_InitFromFilePart :: "string \<Rightarrow> 'fs \<Rightarrow> bool"
  bsw_InitFromFilePart :: "string \<Rightarrow> bool \<Rightarrow> int \<Rightarrow> 'fs \<Rightarrow> bool \<times> 'fs"
  mergeBlockStreams ::
    "string \<Rightarrow> bsrc list \<Rightarrow> bool \<Rightarrow> 'fs \<Rightarrow> (error option \<times> partHeader \<times> uint64 \<times> uint64) \<times> 'fs"
  openFilePart :: "string \<Rightarrow> 'fs \<Rightarrow> part option"
  ph_Path :: "partHeader \<Rightarrow> string \<Rightarrow> uint64 \<Rightarrow> string"

section \<open>Strings and paths\<close>

text \<open>\<open>strings.Split\<close>; with an empty separator it splits after each character.\<close>

fun strings_Split :: "string \<Rightarrow> string \<Rightarrow> string list" where
  "strings_Split [] sep = (if sep = [] then [] else [[]])"
| "strings_Split (c # cs) sep =
     (if sep = [] then map (\<lambda>x. [x]) (c # cs)
      else if prefix sep (c # cs) then [] # strings_Split (drop (length sep - 1) cs) sep
      else (case strings_Split cs sep of
              w # ws \<Rightarrow> (c # w) # ws
            | [] \<Rightarrow> [[c]]))"

fun strings_Join :: "string list \<Rightarrow> string \<Rightarrow> string" where
  "strings_Join [] sep = []"
| "strings_Join [x] sep = x"
| "strings_Join (x # y # ys) sep = x @ sep @ strings_Join (y # ys) sep"

text \<open>
  \<open>filepath.Clean\<close> on a Unix path: the elements between slashes are read left to
  right; an empty element and \<open>.\<close> are dropped, \<open>..\<close> removes the element before it,
  is dropped at the root and is kept at the front of a relative path. \<open>out\<close> is the
  output so far, last element first.
\<close>

fun cleanElems :: "bool \<Rightarrow> string list \<Rightarrow> string list \<Rightarrow> string list" where
  "cleanElems rooted out [] = rev out"
| "cleanElems rooted out (e # es) =
     (if e = [] \<or> e = ''.'' then cleanElems rooted out es
      else if e = ''..'' then
        (case out of
           t # ts \<Rightarrow>
             if t \<noteq> ''..'' then cleanElems rooted ts es
             else if rooted then cleanElems rooted out es
             else cleanElems rooted (e # out) es
         | [] \<Rightarrow> if rooted then cleanElems rooted out es else cleanElems rooted [e] es)
      else cleanElems rooted (e # out) es)"

definition filepath_IsAbs :: "string \<Rightarrow> bool" where
  "filepath_IsAbs path = prefix ''/'' path"

definition filepath_Clean :: "string \<Rightarrow> string" where
  "filepath_Clean path =
     (let rooted = filepath_IsAbs path;
          body = strings_Join (cleanElems rooted [] (strings_Split path ''/'')) ''/''
      in if rooted then ''/'' @ body
         else if body = [] then ''.'' else body)"

definition filepath_Join :: "string \<Rightarrow> string \<Rightarrow> string" where
  "filepath_Join a b =
     (let elems = filter (\<lambda>e. e \<noteq> []) [a, b]
      in if elems = [] then [] else filepath_Clean (strings_Join elems ''/''))"

definition filepath_Abs :: "'fs env \<Rightarrow> string \<Rightarrow> string option" where
  "filepath_Abs en path =
     (if filepath_IsAbs path then Some (filepath_Clean path)
      else case os_Getwd en of
             None \<Rightarrow> None
           | Some wd \<Rightarrow> Some (filepath_Join wd path))"

text \<open>\<open>fmt.Sprintf("%016X", x)\<close>.\<close>

definition hexdigit :: "nat \<Rightarrow> char" where
  "hexdigit n = ''0123456789ABCDEF'' ! (n mod 16)"

definition hex16 :: "uint64 \<Rightarrow> string" where
  "hex16 x = map (\<lambda>i. hexdigit (unat (drop_bit (4 * i) x))) (rev [0..<16])"

section \<open>The transaction log\<close>

definition validatePath :: "'fs env \<Rightarrow> string \<Rightarrow> string \<Rightarrow> string \<Rightarrow> error + string" where
  "validatePath en pathPrefix1 pathPrefix2 path =
     (case filepath_Abs en pathPrefix1 of
        None \<Rightarrow> Inl (errOther ''cannot determine absolute path for pathPrefix1'')
      | Some pp1 \<Rightarrow>
     (case filepath_Abs en pathPrefix2 of
        None \<Rightarrow> Inl (errOther ''cannot determine absolute path for pathPrefix2'')
      | Some pp2 \<Rightarrow>
     (case filepath_Abs en path of
        None \<Rightarrow> Inl (errOther ''cannot determine absolute path'')
      | Some ap \<Rightarrow>
          if \<not> prefix (pp1 @ ''/'') ap \<and> \<not> prefix (pp2 @ ''/'') ap
          then Inl (errOther ''invalid path; must start with either prefix'')
          else Inr ap)))"

text \<open>The loop over \<open>rmPaths\<close>: it stops at the first path that fails.\<close>

fun removePaths :: "'fs env \<Rightarrow> string \<Rightarrow> string \<Rightarrow> string list \<Rightarrow> 'fs \<Rightarrow> error option \<times> 'fs" where
  "removePaths en pathPrefix1 pathPrefix2 [] f = (None, f)"
| "removePaths en pathPrefix1 pathPrefix2 (path # rest) f =
     (case validatePath en pathPrefix1 pathPrefix2 path of
        Inl e \<Rightarrow> (Some (errOther ''invalid path to remove''), f)
      | Inr ap \<Rightarrow>
          (case os_RemoveAll en ap f of
             (ok, f') \<Rightarrow>
               if \<not> ok then (Some (errOther ''cannot remove''), f')
               else removePaths en pathPrefix1 pathPrefix2 rest f'))"

text \<open>The lines of a transaction file, without the newline that may end it.\<close>

definition transactionLines :: "string \<Rightarrow> string list" where
  "transactionLines data0 =
     (let data = (if length data0 > 0 \<and> last data0 = CHR 0x0A then butlast data0 else data0)
      in strings_Split data [CHR 0x0A])"

text \<open>The move of the new part, after the removals.\<close>

definition movePart :: "'fs env \<Rightarrow> string \<Rightarrow> string \<Rightarrow> string \<Rightarrow> string \<Rightarrow> 'fs \<Rightarrow> error option \<times> 'fs" where
  "movePart en pathPrefix1 pathPrefix2 srcPath0 dstPath0 f =
     (case validatePath en pathPrefix1 pathPrefix2 srcPath0 of
        Inl e \<Rightarrow> (Some (errOther ''invalid source path to rename''), f)
      | Inr srcPath \<Rightarrow>
          if length dstPath0 > 0 then
            (case validatePath en pathPrefix1 pathPrefix2 dstPath0 of
               Inl e \<Rightarrow> (Some (errOther ''invalid destination path to rename''), f)
             | Inr dstPath \<Rightarrow>
                 if fs_IsPathExist en srcPath f then
                   (case os_Rename en srcPath dstPath f of
                      (ok, f') \<Rightarrow> if \<not> ok then (Some (errOther ''cannot rename''), f') else (None, f'))
                 else if \<not> fs_IsPathExist en dstPath f
                   then (Some (errOther ''cannot find both source and destination paths''), f)
                   else (None, f))
          else
            (case os_RemoveAll en srcPath f of
               (ok, f') \<Rightarrow> if \<not> ok then (Some (errOther ''cannot remove''), f') else (None, f')))"

definition runTransaction :: "'fs env \<Rightarrow> string \<Rightarrow> string \<Rightarrow> string \<Rightarrow> 'fs \<Rightarrow> error option \<times> 'fs" where
  "runTransaction en pathPrefix1 pathPrefix2 txnPath f =
     (case ioutil_ReadFile en txnPath f of
        None \<Rightarrow> (Some (errOther ''cannot read transaction file''), f)
      | Some data \<Rightarrow>
          let paths = transactionLines data in
          if length paths = 0 then (Some (errOther ''empty transaction''), f)
          else
            let rmPaths = butlast paths;
                mvPaths = strings_Split (last paths) '' -> ''
            in
            if length mvPaths \<noteq> 2
            then (Some (errOther ''invalid last line in the transaction file''), f)
            else
              (case removePaths en pathPrefix1 pathPrefix2 rmPaths f of
                 (Some e, f1) \<Rightarrow> (Some e, f1)
               | (None, f1) \<Rightarrow>
                   (case movePart en pathPrefix1 pathPrefix2 (mvPaths ! 0) (mvPaths ! 1) f1 of
                      (Some e, f2) \<Rightarrow> (Some e, f2)
                    | (None, f2) \<Rightarrow>
                        (case os_Remove en txnPath
                                (fs_SyncPath en pathPrefix2 (fs_SyncPath en pathPrefix1 f2)) of
                           (ok, f3) \<Rightarrow>
                             if \<not> ok then (Some (errOther ''cannot remove transaction file''), f3)
                             else (None, f3)))))"

section \<open>Choosing the parts to merge\<close>

text \<open>The constants of partition.go.\<close>

definition maxRowsPerSmallPart :: uint64 where
  "maxRowsPerSmallPart = 300000000"

definition maxSmallPartsPerPartition :: nat where
  "maxSmallPartsPerPartition = 256"

definition defaultPartsToMerge :: int where
  "defaultPartsToMerge = 15"

definition finalPartsToMerge :: int where
  "finalPartsToMerge = 3"

text \<open>
  \<open>pw.p.ph\<close> through the store. Reading it behind a nil \<open>p\<close> panics in Go; the
  callers below check for nil before they use \<open>hdr_of\<close>.
\<close>

definition hdr_of :: "'fs state \<Rightarrow> addr \<Rightarrow> partHeader" where
  "hdr_of s a =
     (case pw_p (heap s a) of
        Some pp \<Rightarrow> part_ph pp
      | None \<Rightarrow> \<lparr>RowsCount = 0, MinTimestamp = 0, MaxTimestamp = 0\<rparr>)"

definition nil_part :: "'fs state \<Rightarrow> addr list \<Rightarrow> bool" where
  "nil_part s pws = (\<exists>a \<in> set pws. pw_p (heap s a) = None)"

text \<open>
  \<open>appendPartsToMerge\<close> on handles of the store. It reads the headers only when
  it has at least two candidates and passed the check of \<open>maxPartsToMerge\<close>.
\<close>

definition appendPartsToMerge_h ::
  "'fs env \<Rightarrow> 'fs state \<Rightarrow> addr list \<Rightarrow> addr list \<Rightarrow> int \<Rightarrow> uint64 \<Rightarrow> addr list outcome" where
  "appendPartsToMerge_h en s dst src maxPartsToMerge maxRows =
     (if 2 \<le> length src \<and> 2 \<le> maxPartsToMerge \<and> nil_part s src
      then Panic ''nil pointer dereference''
      else appendPartsToMerge (sort_Slice en (hdr_of s)) (hdr_of s) dst src maxPartsToMerge maxRows)"

text \<open>
  The loop of \<open>getPartsToMerge\<close> for \<open>isFinal\<close>:
  \<open>for len(pms) == 0 && maxPartsToMerge >= finalPartsToMerge\<close>, entered with an
  empty \<open>pms\<close>.
\<close>

function finalPartsLoop ::
  "'fs env \<Rightarrow> 'fs state \<Rightarrow> addr list \<Rightarrow> int \<Rightarrow> uint64 \<Rightarrow> addr list outcome" where
  "finalPartsLoop en s src maxPartsToMerge maxRows =
     (if maxPartsToMerge \<ge> finalPartsToMerge then
        (case appendPartsToMerge_h en s [] src maxPartsToMerge maxRows of
           Panic m \<Rightarrow> Panic m
         | Return pms \<Rightarrow>
             if length pms = 0 then finalPartsLoop en s src (maxPartsToMerge - 1) maxRows
             else Return pms)
      else Return [])"
  by pat_completeness auto
termination
  by (relation "measure (\<lambda>(en, s, src, k, maxRows). nat (k + 1 - finalPartsToMerge))") auto

fun markInMerge :: "addr list \<Rightarrow> 'fs state \<Rightarrow> unit outcome \<times> 'fs state" where
  "markInMerge [] s = (Return (), s)"
| "markInMerge (a # pms) s =
     (if isInMerge (heap s a) then (Panic ''BUG: partWrapper.isInMerge cannot be set'', s)
      else markInMerge pms (upd_pw a (\<lambda>pw. pw\<lparr>isInMerge := True\<rparr>) s))"

definition getPartsToMerge ::
  "'fs env \<Rightarrow> addr list \<Rightarrow> uint64 \<Rightarrow> bool \<Rightarrow> 'fs state \<Rightarrow> addr list outcome \<times> 'fs state" where
  "getPartsToMerge en pws maxRows isFinal s =
     (let pwsRemaining = filter (\<lambda>a. \<not> isInMerge (heap s a)) pws;
          r = (if isFinal then finalPartsLoop en s pwsRemaining defaultPartsToMerge maxRows
               else appendPartsToMerge_h en s [] pwsRemaining defaultPartsToMerge maxRows)
      in case r of
           Panic m \<Rightarrow> (Panic m, s)
         | Return pms \<Rightarrow>
             (case markInMerge pms s of
                (Panic m, s1) \<Rightarrow> (Panic m, s1)
              | (Return u, s1) \<Rightarrow> (Return pms, s1)))"

section \<open>Merging parts\<close>

definition getCompressLevelForRowsCount :: "uint64 \<Rightarrow> int" where
  "getCompressLevelForRowsCount rowsCount =
     (if rowsCount \<le> 2 ^ 19 then 1
      else if rowsCount \<le> 2 ^ 22 then 2
      else if rowsCount \<le> 2 ^ 25 then 3
      else if rowsCount \<le> 2 ^ 28 then 4
      else 5)"

definition nextMergeIdx :: "'fs state \<Rightarrow> uint64 \<times> 'fs state" where
  "nextMergeIdx s = (mergeIdx s + 1, s\<lparr>mergeIdx := mergeIdx s + 1\<rparr>)"

text \<open>\<open>removeParts\<close>: \<open>partsToRemove\<close> is the set of the keys of the Go map.\<close>

definition removeParts :: "addr list \<Rightarrow> addr set \<Rightarrow> addr list \<times> nat" where
  "removeParts pws partsToRemove =
     (filter (\<lambda>pw. pw \<notin> partsToRemove) pws, length (filter (\<lambda>pw. pw \<in> partsToRemove) pws))"

text \<open>
  The readers of the source parts. The result is the list \<open>bsrs\<close>, or the error of
  the first file part that cannot be opened.
\<close>

fun openReaders :: "'fs env \<Rightarrow> 'fs state \<Rightarrow> addr list \<Rightarrow> (error + bsrc list) outcome" where
  "openReaders en s [] = Return (Inr [])"
| "openReaders en s (a # pws) =
     (case pw_mp (heap s a) of
        Some m \<Rightarrow>
          (case openReaders en s pws of
             Return (Inr bsrs) \<Rightarrow> Return (Inr (FromInmemoryPart m # bsrs))
           | r \<Rightarrow> r)
      | None \<Rightarrow>
          (case pw_p (heap s a) of
             None \<Rightarrow> Panic ''nil pointer dereference''
           | Some pp \<Rightarrow>
               if \<not> bsr_InitFromFilePart en (part_path pp) (fs s)
               then Return (Inl (errOther ''cannot open source part for merging''))
               else (case openReaders en s pws of
                       Return (Inr bsrs) \<Rightarrow> Return (Inr (FromFilePart (part_path pp) # bsrs))
                     | r \<Rightarrow> r)))"

text \<open>\<open>outRowsCount\<close>: the sum of the rows counts in \<open>uint64\<close>.\<close>

definition outRowsCount :: "'fs state \<Rightarrow> addr list \<Rightarrow> uint64" where
  "outRowsCount s pws = foldl (\<lambda>acc a. acc + RowsCount (hdr_of s a)) 0 pws"

definition isBigPart :: "'fs state \<Rightarrow> addr list \<Rightarrow> bool" where
  "isBigPart s pws = (outRowsCount s pws > maxRowsPerSmallPart)"

text \<open>The directory of the destination part, before \<open>filepath.Clean\<close>.\<close>

definition dstDir :: "'fs state \<Rightarrow> bool \<Rightarrow> string" where
  "dstDir s big = (if big then bigPartsPath s else smallPartsPath s)"

text \<open>
  The bytes of the transaction file: a line for each source part that is a file part,
  then the line of the move. \<open>h\<close> is the store of handles.
\<close>

definition txnData :: "(addr \<Rightarrow> partWrapper) \<Rightarrow> addr list \<Rightarrow> string \<Rightarrow> string \<Rightarrow> string" where
  "txnData h pws tmpPartPath dstPartPath =
     concat (map (\<lambda>a. case pw_mp (h a) of
                         Some m \<Rightarrow> []
                       | None \<Rightarrow> (case pw_p (h a) of
                                    Some pp \<Rightarrow> part_path pp @ [CHR 0x0A]
                                  | None \<Rightarrow> [])) pws)
     @ tmpPartPath @ '' -> '' @ dstPartPath @ [CHR 0x0A]"

text \<open>
  \<open>dstPartPath\<close>: empty when the merged part has no rows, which happens when all of
  them were deleted during the merge.
\<close>

definition dstPartPath_of :: "'fs env \<Rightarrow> partHeader \<Rightarrow> string \<Rightarrow> uint64 \<Rightarrow> string" where
  "dstPartPath_of en ph ptPath idx = (if RowsCount ph > 0 then ph_Path en ph ptPath idx else [])"

fun decRefs :: "addr list \<Rightarrow> 'fs state \<Rightarrow> unit outcome \<times> 'fs state" where
  "decRefs [] s = (Return (), s)"
| "decRefs (a # pws) s =
     (case decRef a s of
        (Panic m, s1) \<Rightarrow> (Panic m, s1)
      | (Return u, s1) \<Rightarrow> decRefs pws s1)"

text \<open>A new handle: \<open>&partWrapper{p: p, mp: mp, refCount: 1}\<close>.\<close>

definition newPartWrapper :: "part \<Rightarrow> inmemoryPart option \<Rightarrow> 'fs state \<Rightarrow> addr \<times> 'fs state" where
  "newPartWrapper pp m s =
     (heap_next s,
      s\<lparr>heap := (heap s)(heap_next s := \<lparr>pw_p = Some pp, pw_mp = m, refCount = 1, isInMerge = False\<rparr>),
        heap_next := Suc (heap_next s)\<rparr>)"

text \<open>
  The counters that \<open>mergeBlockStreams\<close> updates through \<open>rowsMerged\<close> and
  \<open>rowsDeleted\<close>, which point into the big or the small tier.
\<close>

definition addMergeCounters :: "bool \<Rightarrow> uint64 \<Rightarrow> uint64 \<Rightarrow> 'fs state \<Rightarrow> 'fs state" where
  "addMergeCounters big merged deleted s =
     (if big then s\<lparr>bigRowsMerged := bigRowsMerged s + merged, bigRowsDeleted := bigRowsDeleted s + deleted\<rparr>
      else s\<lparr>smallRowsMerged := smallRowsMerged s + merged, smallRowsDeleted := smallRowsDeleted s + deleted\<rparr>)"

text \<open>
  The end of \<open>mergeParts\<close>. Under \<open>partsLock\<close> the old parts leave both lists and the
  new part (if there is one) joins the list of its tier (\<open>replaceParts\<close>); then the
  partition drops its references to the old parts.
\<close>

definition replaceParts :: "addr list \<Rightarrow> bool \<Rightarrow> addr option \<Rightarrow> 'fs state \<Rightarrow> 'fs state" where
  "replaceParts pws big newPW s =
     (let s1 = s\<lparr>smallParts := fst (removeParts (smallParts s) (set pws)),
                 bigParts := fst (removeParts (bigParts s) (set pws))\<rparr>
      in case newPW of
           None \<Rightarrow> s1
         | Some a \<Rightarrow>
             if big then s1\<lparr>bigParts := bigParts s1 @ [a]\<rparr>
             else s1\<lparr>smallParts := smallParts s1 @ [a]\<rparr>)"

definition installMerged :: "addr list \<Rightarrow> bool \<Rightarrow> addr option \<Rightarrow> 'fs state \<Rightarrow> unit outcome \<times> 'fs state" where
  "installMerged pws big newPW s =
     (if card (set pws) \<noteq> length pws then (Panic ''BUG: duplicate parts found in the merge'', s)
      else
        let removedSmallParts = snd (removeParts (smallParts s) (set pws));
            removedBigParts = snd (removeParts (bigParts s) (set pws));
            s2 = replaceParts pws big newPW s
        in if removedSmallParts + removedBigParts \<noteq> card (set pws)
           then (Panic ''BUG: unexpected number of parts removed'', s2)
           else decRefs pws s2)"

definition finishMerge :: "unit outcome \<times> 'fs state \<Rightarrow> error option outcome \<times> 'fs state" where
  "finishMerge r = (case r of (Panic m, s) \<Rightarrow> (Panic m, s) | (Return u, s) \<Rightarrow> (Return None, s))"

text \<open>
  The body of \<open>mergeParts\<close> after the check for an empty \<open>pws\<close>, in two parts.
  The first part runs up to the transaction: it leaves early with what \<open>mergeParts\<close>
  returns, or it hands over whether the output is a big part and the path of the
  destination part. \<open>stopCh\<close> says whether a stop channel is passed. The second loop
  of the source reads \<open>pw.p.ph\<close> of every handle, so a nil \<open>p\<close> panics there at the
  latest.
\<close>

definition mergeParts_write ::
  "'fs env \<Rightarrow> addr list \<Rightarrow> bool \<Rightarrow> 'fs state \<Rightarrow> (error option outcome + bool \<times> string) \<times> 'fs state" where
  "mergeParts_write en pws stopCh s =
     (case openReaders en s pws of
        Panic m \<Rightarrow> (Inl (Panic m), s)
      | Return (Inl e) \<Rightarrow> (Inl (Return (Some e)), s)
      | Return (Inr bsrs) \<Rightarrow>
          if nil_part s pws then (Inl (Panic ''nil pointer dereference''), s)
          else
            let big = isBigPart s pws;
                nocache = big;
                ptPath = filepath_Clean (dstDir s big)
            in
            case nextMergeIdx s of (idx, s1) \<Rightarrow>
            let tmpPartPath = ptPath @ ''/tmp/'' @ hex16 idx;
                compressLevel = getCompressLevelForRowsCount (outRowsCount s pws)
            in
            case bsw_InitFromFilePart en tmpPartPath nocache compressLevel (fs s1) of (ok, f1) \<Rightarrow>
            let s1' = emit (InitWriter tmpPartPath nocache compressLevel) (s1\<lparr>fs := f1\<rparr>) in
            if \<not> ok then (Inl (Return (Some (errOther ''cannot create destination part''))), s1')
            else
            case mergeBlockStreams en tmpPartPath bsrs stopCh f1 of ((err, ph, merged, deleted), f2) \<Rightarrow>
            let s2 = addMergeCounters big merged deleted (s1'\<lparr>fs := f2\<rparr>) in
            case err of
              Some e \<Rightarrow>
                if e = errForciblyStopped then (Inl (Return (Some e)), s2)
                else (Inl (Return (Some (errOther ''error when merging parts''))), s2)
            | None \<Rightarrow>
                let dstPartPath = dstPartPath_of en ph ptPath idx;
                    data = txnData (heap s2) pws tmpPartPath dstPartPath;
                    txnPath = ptPath @ ''/txn/'' @ hex16 idx
                in
                case fs_WriteFile en txnPath data (fs s2) of (ok, f3) \<Rightarrow>
                let s3 = emit (WriteFile txnPath data) (s2\<lparr>fs := f3\<rparr>) in
                if \<not> ok then (Inl (Return (Some (errOther ''cannot create transaction file''))), s3)
                else
                case runTransaction en (smallPartsPath s3) (bigPartsPath s3) txnPath (fs s3) of
                  (Some e, f4) \<Rightarrow> (Inl (Return (Some (errOther ''cannot execute transaction''))), s3\<lparr>fs := f4\<rparr>)
                | (None, f4) \<Rightarrow> (Inr (big, dstPartPath), s3\<lparr>fs := f4\<rparr>))"

definition mergeParts_install ::
  "'fs env \<Rightarrow> addr list \<Rightarrow> bool \<Rightarrow> string \<Rightarrow> 'fs state \<Rightarrow> error option outcome \<times> 'fs state" where
  "mergeParts_install en pws big dstPartPath s =
     (if length dstPartPath > 0 then
        (case openFilePart en dstPartPath (fs s) of
           None \<Rightarrow>
             (Return (Some (errOther ''cannot open merged part'')), emit (OpenFilePart dstPartPath) s)
         | Some newP \<Rightarrow>
             (case newPartWrapper newP None (emit (OpenFilePart dstPartPath) s) of
                (a, s1) \<Rightarrow> finishMerge (installMerged pws big (Some a) s1)))
      else finishMerge (installMerged pws big None s))"

definition mergeParts_body :: "'fs env \<Rightarrow> addr list \<Rightarrow> bool \<Rightarrow> 'fs state \<Rightarrow> error option outcome \<times> 'fs state" where
  "mergeParts_body en pws stopCh s =
     (case mergeParts_write en pws stopCh s of
        (Inl r, s1) \<Rightarrow> (r, s1)
      | (Inr (big, dstPartPath), s1) \<Rightarrow> mergeParts_install en pws big dstPartPath s1)"

text \<open>
  The deferred function of \<open>mergeParts\<close>. Its panic message reads \<open>pw.p.path\<close>.
\<close>

fun clearInMerge :: "addr list \<Rightarrow> 'fs state \<Rightarrow> unit outcome \<times> 'fs state" where
  "clearInMerge [] s = (Return (), s)"
| "clearInMerge (a # pws) s =
     (if \<not> isInMerge (heap s a) then
        (case pw_p (heap s a) of
           None \<Rightarrow> (Panic ''nil pointer dereference'', s)
         | Some pp \<Rightarrow> (Panic ''BUG: missing isInMerge flag on the part'', s))
      else clearInMerge pws (upd_pw a (\<lambda>pw. pw\<lparr>isInMerge := False\<rparr>) s))"

text \<open>
  \<open>mergeParts\<close>: the deferred function runs when the body returns and when it panics;
  the other deferred function only returns the readers to their pool.
\<close>

definition mergeParts :: "'fs env \<Rightarrow> addr list \<Rightarrow> bool \<Rightarrow> 'fs state \<Rightarrow> error option outcome \<times> 'fs state" where
  "mergeParts en pws stopCh s =
     (if length pws = 0 then (Return (Some errNothingToMerge), s)
      else
        case mergeParts_body en pws stopCh s of (r, s1) \<Rightarrow>
        case clearInMerge pws s1 of
          (Panic m, s2) \<Rightarrow> (Panic m, s2)
        | (Return u, s2) \<Rightarrow> (r, s2))"

definition mergeSmallParts :: "'fs env \<Rightarrow> bool \<Rightarrow> 'fs state \<Rightarrow> error option outcome \<times> 'fs state" where
  "mergeSmallParts en isFinal s =
     (let maxRows = maxRowsPerSmallPart * word_of_int defaultPartsToMerge in
      case getPartsToMerge en (smallParts s) maxRows isFinal s of
        (Panic m, s1) \<Rightarrow> (Panic m, s1)
      | (Return pws, s1) \<Rightarrow>
          if length pws = 0 then (Return (Some errNothingToMerge), s1)
          else
            let s2 = s1\<lparr>smallMergesCount := smallMergesCount s1 + 1,
                        activeSmallMerges := activeSmallMerges s1 + 1\<rparr>
            in case mergeParts en pws True s2 of
                 (Panic m, s3) \<Rightarrow> (Panic m, s3)
               | (Return err, s3) \<Rightarrow> (Return err, s3\<lparr>activeSmallMerges := activeSmallMerges s3 + NOT 0\<rparr>))"

function mergePartsOptimal :: "'fs env \<Rightarrow> addr list \<Rightarrow> 'fs state \<Rightarrow> error option outcome \<times> 'fs state" where
  "mergePartsOptimal en pws s =
     (if int (length pws) > defaultPartsToMerge then
        (case mergeParts en (take (nat defaultPartsToMerge) pws) False s of
           (Panic m, s1) \<Rightarrow> (Panic m, s1)
         | (Return (Some e), s1) \<Rightarrow> (Return (Some (errOther ''cannot merge parts'')), s1)
         | (Return None, s1) \<Rightarrow> mergePartsOptimal en (drop (nat defaultPartsToMerge) pws) s1)
      else if length pws > 0 then
        (case mergeParts en pws False s of
           (Panic m, s1) \<Rightarrow> (Panic m, s1)
         | (Return (Some e), s1) \<Rightarrow> (Return (Some (errOther ''cannot merge parts'')), s1)
         | (Return None, s1) \<Rightarrow> (Return None, s1))
      else (Return None, s))"
  by pat_completeness auto
termination
  by (relation "measure (\<lambda>(en, pws, s). length pws)") (auto simp: defaultPartsToMerge_def)

section \<open>Ingest\<close>

text \<open>A slice of raw rows: its elements and its capacity.\<close>

type_synonym rawRows = "rawRow list \<times> nat"

text \<open>
  \<open>getMaxRawRowsPerPartition\<close>. \<open>memory.Allowed()\<close> and the size of a \<open>rawRow\<close>
  are positive, so the integer divisions of Go and of HOL agree.
\<close>

definition getMaxRawRowsPerPartition :: "'fs env \<Rightarrow> int" where
  "getMaxRawRowsPerPartition en =
     (let n = memory_Allowed en div 256 div sizeof_rawRow en;
          n1 = (if n < 10000 then 10000 else n)
      in if n1 > 500000 then 500000 else n1)"

text \<open>
  \<open>getRawRowsPool\<close>: the index of the pool and the rounded size.
  \<open>64 - bits.LeadingZeros64(x)\<close> is the length of \<open>x\<close> in bits; there are 19 pools.
\<close>

definition getRawRowsPool :: "int \<Rightarrow> nat \<times> nat" where
  "getRawRowsPool size0 =
     (let size1 = size0 - 1;
          size2 = (if size1 < 0 then 0 else size1);
          bucketIdx0 = bitlen_nat (nat size2);
          bucketIdx = (if bucketIdx0 \<ge> 19 then 19 - 1 else bucketIdx0)
      in (bucketIdx, 2 ^ bucketIdx))"

text \<open>
  \<open>getRawRowsWithSize\<close>: \<open>p.Get()\<close> takes a buffer of the pool when it has one
  (every pooled buffer was emptied by \<open>putRawRows\<close>), else a new buffer is made.
\<close>

definition getRawRowsWithSize :: "int \<Rightarrow> 'fs state \<Rightarrow> rawRows \<times> 'fs state" where
  "getRawRowsWithSize size0 s =
     (case getRawRowsPool size0 of
        (bucketIdx, sizeRounded) \<Rightarrow>
          (case rawRowsPools s bucketIdx of
             [] \<Rightarrow> (([], sizeRounded), s)
           | c # cs \<Rightarrow> (([], c), s\<lparr>rawRowsPools := (rawRowsPools s)(bucketIdx := cs)\<rparr>)))"

definition getRawRowsMaxSize :: "'fs env \<Rightarrow> 'fs state \<Rightarrow> rawRows \<times> 'fs state" where
  "getRawRowsMaxSize en s = getRawRowsWithSize (getMaxRawRowsPerPartition en) s"

definition putRawRows :: "rawRows \<Rightarrow> 'fs state \<Rightarrow> 'fs state" where
  "putRawRows rr s =
     (case getRawRowsPool (int (snd rr)) of
        (bucketIdx, sizeRounded) \<Rightarrow>
          s\<lparr>rawRowsPools := (rawRowsPools s)(bucketIdx := snd rr # rawRowsPools s bucketIdx)\<rparr>)"

definition HasTimestamp :: "'fs state \<Rightarrow> int \<Rightarrow> bool" where
  "HasTimestamp s timestamp = (timestamp \<ge> tr_MinTimestamp s \<and> timestamp \<le> tr_MaxTimestamp s)"

definition addRowsPart :: "'fs env \<Rightarrow> rawRow list \<Rightarrow> 'fs state \<Rightarrow> unit outcome \<times> 'fs state" where
  "addRowsPart en rows s =
     (if length rows = 0 then (Return (), s)
      else
        let m = InitFromRows en rows in
        if MinTimestamp (mp_ph m) > MaxTimestamp (mp_ph m)
        then (Panic ''BUG: the part cannot be added because its MinTimestamp exceeds MaxTimestamp'', s)
        else if MinTimestamp (mp_ph m) < tr_MinTimestamp s
        then (Panic ''BUG: the part cannot be added because of too small MinTimestamp'', s)
        else if MaxTimestamp (mp_ph m) > tr_MaxTimestamp s
        then (Panic ''BUG: the part cannot be added because of too big MaxTimestamp'', s)
        else
          case NewPart en m of
            None \<Rightarrow> (Panic ''BUG: cannot create part'', s)
          | Some pp \<Rightarrow>
              (case newPartWrapper pp (Some m) s of
                 (pw, s1) \<Rightarrow>
                   let s2 = s1\<lparr>smallParts := smallParts s1 @ [pw]\<rparr>;
                       ok = (length (smallParts s2) \<le> maxSmallPartsPerPartition)
                   in if ok then (Return (), s2)
                      else
                        case mergeSmallParts en False s2 of
                          (Panic msg, s3) \<Rightarrow> (Panic msg, s3)
                        | (Return None, s3) \<Rightarrow>
                            (Return (), s3\<lparr>smallAssistedMerges := smallAssistedMerges s3 + 1\<rparr>)
                        | (Return (Some err), s3) \<Rightarrow>
                            if err = errNothingToMerge \<or> err = errForciblyStopped then (Return (), s3)
                            else (Panic ''FATAL: cannot merge small parts'', s3)))"

text \<open>The validation of the rows at the start of \<open>AddRows\<close>.\<close>

fun validateRows :: "'fs env \<Rightarrow> 'fs state \<Rightarrow> rawRow list \<Rightarrow> unit outcome" where
  "validateRows en s [] = Return ()"
| "validateRows en s (r # rows) =
     (if \<not> HasTimestamp s (Timestamp r) then Panic ''BUG: row has Timestamp outside partition range''
      else if \<not> CheckPrecisionBits en (PrecisionBits r) then Panic ''BUG: row has invalid PrecisionBits''
      else validateRows en s rows)"

text \<open>
  The loop of \<open>AddRows\<close> under \<open>rawRowsLock\<close>. It has no bound in the source, so
  it is a partial function: \<open>None\<close> is a loop that does not end. \<open>rrs\<close> collects the
  buffers that were swapped out.
\<close>

partial_function (option) addRowsLoop ::
  "'fs env \<Rightarrow> rawRow list \<Rightarrow> rawRows list \<Rightarrow> 'fs state \<Rightarrow> (rawRows list \<times> 'fs state) option" where
  "addRowsLoop en rows rrs s =
     (if rawRows_cap s - length (rawRows s) \<ge> length rows
      then Some (rrs, s\<lparr>rawRows := rawRows s @ rows\<rparr>)
      else
        addRowsLoop en
          (drop (rawRows_cap s - length (rawRows s)) rows)
          (rrs @ [(rawRows s @ take (rawRows_cap s - length (rawRows s)) rows, rawRows_cap s)])
          ((snd (getRawRowsMaxSize en s))
             \<lparr>rawRows := fst (fst (getRawRowsMaxSize en s)),
              rawRows_cap := snd (fst (getRawRowsMaxSize en s)),
              rawRowsLastFlushTime := time_Now en\<rparr>))"

text \<open>\<open>for _, rr := range rrs { pt.addRowsPart(rr.rows); putRawRows(rr) }\<close>\<close>

fun addSwapped :: "'fs env \<Rightarrow> rawRows list \<Rightarrow> 'fs state \<Rightarrow> unit outcome \<times> 'fs state" where
  "addSwapped en [] s = (Return (), s)"
| "addSwapped en (rr # rrs) s =
     (case addRowsPart en (fst rr) s of
        (Panic m, s1) \<Rightarrow> (Panic m, s1)
      | (Return u, s1) \<Rightarrow> addSwapped en rrs (putRawRows rr s1))"

definition AddRows :: "'fs env \<Rightarrow> rawRow list \<Rightarrow> 'fs state \<Rightarrow> (unit outcome \<times> 'fs state) option" where
  "AddRows en rows s =
     (if length rows = 0 then Some (Return (), s)
      else
        case validateRows en s rows of
          Panic m \<Rightarrow> Some (Panic m, s)
        | Return u \<Rightarrow>
            (case addRowsLoop en rows [] s of
               None \<Rightarrow> None
             | Some (rrs, s1) \<Rightarrow> Some (addSwapped en rrs s1)))"

section \<open>Flushing raw rows, snapshots of the parts, closing\<close>

definition rawRowsFlushInterval :: int where
  "rawRowsFlushInterval = 1000000000"

text \<open>\<open>flushRawRows\<close> returns \<open>oldRawRows\<close>; times are in nanoseconds.\<close>

definition flushRawRows :: "'fs env \<Rightarrow> rawRows \<Rightarrow> bool \<Rightarrow> 'fs state \<Rightarrow> rawRows outcome \<times> 'fs state" where
  "flushRawRows en newRawRows isFinal s =
     (let currentTime = time_Now en in
      if isFinal \<or> currentTime - rawRowsLastFlushTime s > rawRowsFlushInterval then
        (let oldRawRows = (rawRows s, rawRows_cap s);
             s1 = s\<lparr>rawRows := [], rawRows_cap := snd newRawRows, rawRowsLastFlushTime := currentTime\<rparr>
         in case addRowsPart en (fst oldRawRows) s1 of
              (Panic m, s2) \<Rightarrow> (Panic m, s2)
            | (Return u, s2) \<Rightarrow> (Return oldRawRows, s2))
      else (Return ([], snd newRawRows), s))"

fun incRefs :: "addr list \<Rightarrow> 'fs state \<Rightarrow> 'fs state" where
  "incRefs [] s = s"
| "incRefs (a # pws) s = incRefs pws (incRef a s)"

definition GetParts :: "addr list \<Rightarrow> 'fs state \<Rightarrow> addr list \<times> 'fs state" where
  "GetParts dst s =
     (let s1 = incRefs (smallParts s) s;
          s2 = incRefs (bigParts s1) s1
      in (dst @ smallParts s @ bigParts s, s2))"

definition PutParts :: "addr list \<Rightarrow> 'fs state \<Rightarrow> unit outcome \<times> 'fs state" where
  "PutParts pws s = decRefs pws s"

text \<open>
  The loop of \<open>MustClose\<close> that collects the in-memory parts and marks them as being
  merged.
\<close>

fun collectInmemoryParts :: "addr list \<Rightarrow> addr list \<Rightarrow> 'fs state \<Rightarrow> addr list outcome \<times> 'fs state" where
  "collectInmemoryParts [] pws s = (Return pws, s)"
| "collectInmemoryParts (a # rest) pws s =
     (if pw_mp (heap s a) = None then collectInmemoryParts rest pws s
      else if isInMerge (heap s a)
      then (Panic ''BUG: the inmemory part must not be in merge after stopping small parts merger'', s)
      else collectInmemoryParts rest (pws @ [a]) (upd_pw a (\<lambda>pw. pw\<lparr>isInMerge := True\<rparr>) s))"

text \<open>
  \<open>MustClose\<close> up to the point where the in-memory parts are flushed to files.
  Closing the stop channel and waiting for the background tasks have no effect in a
  sequential run.
\<close>

definition MustClose_flush :: "'fs env \<Rightarrow> 'fs state \<Rightarrow> unit outcome \<times> 'fs state" where
  "MustClose_flush en s =
     (case flushRawRows en ([], 0) True s of
        (Panic m, s1) \<Rightarrow> (Panic m, s1)
      | (Return old, s1) \<Rightarrow>
          (case collectInmemoryParts (smallParts s1) [] s1 of
             (Panic m, s2) \<Rightarrow> (Panic m, s2)
           | (Return pws, s2) \<Rightarrow>
               (case mergePartsOptimal en pws s2 of
                  (Panic m, s3) \<Rightarrow> (Panic m, s3)
                | (Return (Some e), s3) \<Rightarrow> (Panic ''FATAL: cannot flush inmemory parts to files'', s3)
                | (Return None, s3) \<Rightarrow> (Return (), s3))))"

text \<open>The rest of \<open>MustClose\<close>: the references of the partition are removed.\<close>

definition MustClose_release :: "'fs state \<Rightarrow> unit outcome \<times> 'fs state" where
  "MustClose_release s =
     (let smallParts0 = smallParts s;
          s1 = s\<lparr>smallParts := []\<rparr>
      in case decRefs smallParts0 s1 of
           (Panic m, s2) \<Rightarrow> (Panic m, s2)
         | (Return u, s2) \<Rightarrow>
             (let bigParts0 = bigParts s2;
                  s3 = s2\<lparr>bigParts := []\<rparr>
              in decRefs bigParts0 s3))"

definition MustClose :: "'fs env \<Rightarrow> 'fs state \<Rightarrow> unit outcome \<times> 'fs state" where
  "MustClose en s =
     (case MustClose_flush en s of
        (Panic m, s1) \<Rightarrow> (Panic m, s1)
      | (Return u, s1) \<Rightarrow> MustClose_release s1)"

section \<open>Concrete collaborators and states\<close>

text \<open>
  A small file system in memory, used where a property is evaluated on a concrete
  input: the list of the paths that exist, each with its content (a directory has the
  empty content). Removing a path removes what is below it, renaming moves what is
  below it.
\<close>

type_synonym memfs = "(string \<times> string) list"

definition mem_below :: "string \<Rightarrow> string \<Rightarrow> bool" where
  "mem_below dir q = (q = dir \<or> prefix (dir @ ''/'') q)"

definition mem_exists :: "string \<Rightarrow> memfs \<Rightarrow> bool" where
  "mem_exists q f = (q \<in> set (map fst f))"

definition mem_RemoveAll :: "string \<Rightarrow> memfs \<Rightarrow> bool \<times> memfs" where
  "mem_RemoveAll dir f = (True, filter (\<lambda>e. \<not> mem_below dir (fst e)) f)"

definition mem_Rename :: "string \<Rightarrow> string \<Rightarrow> memfs \<Rightarrow> bool \<times> memfs" where
  "mem_Rename src dst f =
     (if mem_exists src f \<and> \<not> mem_exists dst f
      then (True, map (\<lambda>e. if mem_below src (fst e) then (dst @ drop (length src) (fst e), snd e) else e) f)
      else (False, f))"

definition mem_Remove :: "string \<Rightarrow> memfs \<Rightarrow> bool \<times> memfs" where
  "mem_Remove q f = (if mem_exists q f then (True, filter (\<lambda>e. fst e \<noteq> q) f) else (False, f))"

definition mem_WriteFile :: "string \<Rightarrow> string \<Rightarrow> memfs \<Rightarrow> bool \<times> memfs" where
  "mem_WriteFile q d f = (if mem_exists q f then (False, f) else (True, f @ [(q, d)]))"

definition part0 :: part where
  "part0 = \<lparr>part_ph = \<lparr>RowsCount = 10, MinTimestamp = 5, MaxTimestamp = 7\<rparr>, part_path = ''/big/2023_07/p0''\<rparr>"

definition mem_env :: "memfs env" where
  "mem_env =
     \<lparr>os_Getwd = Some ''/data'',
      ioutil_ReadFile = (\<lambda>q f. map_of f q),
      os_RemoveAll = mem_RemoveAll,
      os_Rename = mem_Rename,
      os_Remove = mem_Remove,
      fs_IsPathExist = mem_exists,
      fs_SyncPath = (\<lambda>q f. f),
      fs_WriteFile = mem_WriteFile,
      time_Now = 2000000000,
      memory_Allowed = 1073741824,
      sizeof_rawRow = 48,
      CheckPrecisionBits = (\<lambda>b. 1 \<le> b \<and> b \<le> 64),
      sort_Slice = sort_ph,
      InitFromRows = (\<lambda>rows. \<lparr>mp_ph = \<lparr>RowsCount = word_of_nat (length rows),
                                         MinTimestamp = Timestamp (hd rows),
                                         MaxTimestamp = Timestamp (hd rows)\<rparr>,
                               creationTime = 0\<rparr>),
      NewPart = (\<lambda>m. Some \<lparr>part_ph = mp_ph m, part_path = []\<rparr>),
      bsr_InitFromFilePart = mem_exists,
      bsw_InitFromFilePart = (\<lambda>q nocache level f. mem_WriteFile q [] f),
      mergeBlockStreams = (\<lambda>q bsrs stopCh f.
         ((None, \<lparr>RowsCount = word_of_nat (length bsrs), MinTimestamp = 5, MaxTimestamp = 7\<rparr>,
           word_of_nat (length bsrs), 0), f)),
      openFilePart = (\<lambda>q f. if mem_exists q f
                            then Some \<lparr>part_ph = \<lparr>RowsCount = 1, MinTimestamp = 5, MaxTimestamp = 7\<rparr>,
                                       part_path = q\<rparr>
                            else None),
      ph_Path = (\<lambda>ph dir idx. dir @ ''/'' @ hex16 idx)\<rparr>"

text \<open>A handle to \<open>part0\<close> with a given reference count, and a partition without parts.\<close>

definition handle0 :: "uint64 \<Rightarrow> partWrapper" where
  "handle0 n = \<lparr>pw_p = Some part0, pw_mp = None, refCount = n, isInMerge = False\<rparr>"

definition state0 :: "memfs state" where
  "state0 =
     \<lparr>smallPartsPath = ''/small/2023_07'', bigPartsPath = ''/big/2023_07'',
      tr_MinTimestamp = 0, tr_MaxTimestamp = 100,
      smallParts = [], bigParts = [],
      rawRows = [], rawRows_cap = 0, rawRowsLastFlushTime = 0,
      mergeIdx = 0, activeSmallMerges = 0, smallMergesCount = 0,
      bigRowsMerged = 0, smallRowsMerged = 0, bigRowsDeleted = 0, smallRowsDeleted = 0,
      smallAssistedMerges = 0,
      heap = (\<lambda>a. handle0 1), heap_next = 0,
      rawRowsPools = (\<lambda>b. []),
      trace = [],
      fs = [(''/small/2023_07'', []), (''/small/2023_07/tmp'', []), (''/small/2023_07/txn'', []),
            (''/big/2023_07'', []), (''/big/2023_07/tmp'', []), (''/big/2023_07/txn'', [])]\<rparr>"

text \<open>A valid row, and collaborators of a process that may use 32 GiB.\<close>

definition row0 :: rawRow where
  "row0 = \<lparr>Timestamp = 50, PrecisionBits = 64\<rparr>"

definition mem_env_large :: "memfs env" where
  "mem_env_large = mem_env\<lparr>memory_Allowed := 34359738368\<rparr>"

section \<open>Vocabulary of the properties\<close>

text \<open>
  The names \<open>mergeParts\<close> gives to the directory of the destination part, to the
  temporary part and to the transaction file, as functions of the state in which it
  is called.
\<close>

definition ptPath_of :: "'fs state \<Rightarrow> addr list \<Rightarrow> string" where
  "ptPath_of s pws = filepath_Clean (dstDir s (isBigPart s pws))"

definition tmpPartPath_of :: "'fs state \<Rightarrow> addr list \<Rightarrow> string" where
  "tmpPartPath_of s pws = ptPath_of s pws @ ''/tmp/'' @ hex16 (mergeIdx s + 1)"

definition txnPath_of :: "'fs state \<Rightarrow> addr list \<Rightarrow> string" where
  "txnPath_of s pws = ptPath_of s pws @ ''/txn/'' @ hex16 (mergeIdx s + 1)"

text \<open>The events of \<open>decRef\<close>: a part is returned to its pool or closed.\<close>

fun is_release :: "event \<Rightarrow> bool" where
  "is_release (PutInmemoryPart m) = True"
| "is_release (PartMustClose pp) = True"
| "is_release (OpenFilePart q) = False"
| "is_release (WriteFile q d) = False"
| "is_release (InitWriter q nocache level) = False"

text \<open>
  The invariant of the registry: every handle of the two lists was allocated and is
  referenced at least once.
\<close>

definition registry_ok :: "'fs state \<Rightarrow> bool" where
  "registry_ok s =
     (\<forall>a \<in> set (smallParts s) \<union> set (bigParts s). a < heap_next s \<and> 1 \<le> refCount (heap s a))"

text \<open>A partition with two small file parts that are being merged.\<close>

definition state_merging :: "memfs state" where
  "state_merging =
     state0\<lparr>heap := (\<lambda>a. (handle0 1)\<lparr>isInMerge := True\<rparr>), smallParts := [2, 3], heap_next := 4\<rparr>"

text \<open>Two file parts of 200 million rows each in the small tier, both taking part in a merge, and
  the transaction files their merge writes; \<^term>\<open>mem_env_deleted\<close> is the collaborator whose merge
  drops every row.\<close>

definition part_a :: part where
  "part_a = \<lparr>part_ph = \<lparr>RowsCount = 200000000, MinTimestamp = 5, MaxTimestamp = 7\<rparr>,
             part_path = ''/small/2023_07/a''\<rparr>"

definition part_b :: part where
  "part_b = \<lparr>part_ph = \<lparr>RowsCount = 200000000, MinTimestamp = 6, MaxTimestamp = 9\<rparr>,
             part_path = ''/small/2023_07/b''\<rparr>"

definition state_two :: "memfs state" where
  "state_two =
     state0\<lparr>heap := (\<lambda>a. \<lparr>pw_p = Some (if a = 2 then part_a else part_b), pw_mp = None,
                          refCount = 1, isInMerge = True\<rparr>),
            smallParts := [2, 3], heap_next := 4,
            fs := fs state0 @ [(''/small/2023_07/a'', []), (''/small/2023_07/b'', [])]\<rparr>"

definition txn_text :: string where
  "txn_text = ''/small/2023_07/a'' @ [CHR 0x0A] @ ''/small/2023_07/b'' @ [CHR 0x0A]
     @ ''/big/2023_07/tmp/0000000000000001 -> /big/2023_07/0000000000000001'' @ [CHR 0x0A]"

definition fs_before :: memfs where
  "fs_before = [(''/small/2023_07'', []), (''/small/2023_07/tmp'', []), (''/small/2023_07/txn'', []),
            (''/big/2023_07'', []), (''/big/2023_07/tmp'', []), (''/big/2023_07/txn'', []),
            (''/small/2023_07/a'', []), (''/small/2023_07/b'', []),
            (''/big/2023_07/tmp/0000000000000001'', []),
            (''/big/2023_07/txn/0000000000000001'', txn_text)]"

definition fs_after :: memfs where
  "fs_after = [(''/small/2023_07'', []), (''/small/2023_07/tmp'', []), (''/small/2023_07/txn'', []),
            (''/big/2023_07'', []), (''/big/2023_07/tmp'', []), (''/big/2023_07/txn'', []),
            (''/big/2023_07/0000000000000001'', [])]"

definition mem_env_deleted :: "memfs env" where
  "mem_env_deleted = mem_env\<lparr>mergeBlockStreams := (\<lambda>q bsrs stopCh f.
         ((None, \<lparr>RowsCount = 0, MinTimestamp = 0, MaxTimestamp = 0\<rparr>, 0, 400000000), f))\<rparr>"

definition txn_text_deleted :: string where
  "txn_text_deleted = ''/small/2023_07/a'' @ [CHR 0x0A] @ ''/small/2023_07/b'' @ [CHR 0x0A]
     @ ''/big/2023_07/tmp/0000000000000001 -> '' @ [CHR 0x0A]"

definition fs_before_deleted :: memfs where
  "fs_before_deleted = [(''/small/2023_07'', []), (''/small/2023_07/tmp'', []), (''/small/2023_07/txn'', []),
            (''/big/2023_07'', []), (''/big/2023_07/tmp'', []), (''/big/2023_07/txn'', []),
            (''/small/2023_07/a'', []), (''/small/2023_07/b'', []),
            (''/big/2023_07/tmp/0000000000000001'', []),
            (''/big/2023_07/txn/0000000000000001'', txn_text_deleted)]"

section \<open>Facts about reference counting\<close>

lemma sint_neg_iff_bit: "sint (x::uint64) < 0 \<longleftrightarrow> bit x 63"
  by (simp add: sint_uint bit_uint_iff)

lemma bit63_iff_ge: "bit (x::uint64) 63 \<longleftrightarrow> 2 ^ 63 \<le> x"
proof -
  define t where "t = take_bit 63 (uint x)"
  have a: "uint x = take_bit (Suc 63) (uint x)"
    by (simp add: take_bit_int_eq_self uint_bounded[of x, simplified] )
  have b: "take_bit (Suc 63) (uint x) = 2 ^ 63 * of_bool (bit (uint x) 63) + t"
    unfolding t_def by (rule take_bit_Suc_from_most)
  have c: "0 \<le> t" "t < 2 ^ 63"
    using take_bit_int_less_exp [of 63 "uint x"] by (simp_all add: t_def)
  have "bit (uint x) 63 \<longleftrightarrow> 2 ^ 63 \<le> uint x"
  proof (cases "bit (uint x) 63")
    case True
    then have "uint x = 2 ^ 63 + t" using a b by simp
    then show ?thesis using True c by linarith
  next
    case False
    then have "uint x = t" using a b by simp
    then show ?thesis using False c by linarith
  qed
  then show ?thesis
    by (simp add: word_le_def bit_uint_iff)
qed

lemma sint_dec_neg_iff: "sint (c - 1 :: uint64) < 0 \<longleftrightarrow> c = 0 \<or> 2 ^ 63 < c"
  using less_eq_dec_iff sint_neg_iff_bit bit63_iff_ge by fastforce

lemmas sint_dec_neg_simp = sint_dec_neg_iff [simplified]

lemma decRef_fst:
  "fst (decRef a s) =
     (if refCount (heap s a) = 0 \<or> 2 ^ 63 < refCount (heap s a)
      then Panic ''BUG: pw.refCount must be bigger than 0''
      else if refCount (heap s a) \<noteq> 1 then Return ()
      else if pw_p (heap s a) = None then Panic ''nil pointer dereference''
      else Return ())"
  by (auto simp: decRef_def Let_def sint_dec_neg_simp upd_pw_def emit_def word_greater_zero_iff
           split: option.splits)

lemma decRef_lists [simp]:
  "smallParts (snd (decRef a s)) = smallParts s"
  "bigParts (snd (decRef a s)) = bigParts s"
  "heap_next (snd (decRef a s)) = heap_next s"
  "smallAssistedMerges (snd (decRef a s)) = smallAssistedMerges s"
  by (auto simp: decRef_def Let_def upd_pw_def emit_def split: option.splits)

lemma decRef_heap_other: "b \<noteq> a \<Longrightarrow> heap (snd (decRef a s)) b = heap s b"
  by (auto simp: decRef_def Let_def upd_pw_def emit_def split: option.splits)

lemma decRef_refCount: "refCount (heap (snd (decRef a s)) a) = refCount (heap s a) - 1"
  by (auto simp: decRef_def Let_def upd_pw_def emit_def split: option.splits)

lemma decRef_isInMerge: "isInMerge (heap (snd (decRef a s)) b) = isInMerge (heap s b)"
  by (auto simp: decRef_def Let_def upd_pw_def emit_def split: option.splits)



section \<open>Frames\<close>

lemma decRef_trace_prefix: "\<exists>evs. trace (snd (decRef a s)) = trace s @ evs"
  by (auto simp: decRef_def Let_def upd_pw_def emit_def split: option.splits)

lemma decRefs_lists [simp]:
  "smallParts (snd (decRefs pws s)) = smallParts s"
  "bigParts (snd (decRefs pws s)) = bigParts s"
  "heap_next (snd (decRefs pws s)) = heap_next s"
  "smallAssistedMerges (snd (decRefs pws s)) = smallAssistedMerges s"
proof (induction pws arbitrary: s)
  case Nil
  { case 1 show ?case by simp }
  { case 2 show ?case by simp }
  { case 3 show ?case by simp }
  { case 4 show ?case by simp }
next
  case (Cons a pws)
  { case 1 show ?case
      using Cons.IH(1)[of "snd (decRef a s)"] decRef_lists(1)[of a s]
      by (cases "decRef a s") (auto split: outcome.splits) }
  { case 2 show ?case
      using Cons.IH(2)[of "snd (decRef a s)"] decRef_lists(2)[of a s]
      by (cases "decRef a s") (auto split: outcome.splits) }
  { case 3 show ?case
      using Cons.IH(3)[of "snd (decRef a s)"] decRef_lists(3)[of a s]
      by (cases "decRef a s") (auto split: outcome.splits) }
  { case 4 show ?case
      using Cons.IH(4)[of "snd (decRef a s)"] decRef_lists(4)[of a s]
      by (cases "decRef a s") (auto split: outcome.splits) }
qed

lemma decRefs_heap_other: "b \<notin> set pws \<Longrightarrow> heap (snd (decRefs pws s)) b = heap s b"
proof (induction pws arbitrary: s)
  case Nil
  then show ?case by simp
next
  case (Cons a pws)
  then show ?case
    using decRef_heap_other[of b a s]
    by (cases "decRef a s") (auto split: outcome.splits)
qed

lemma decRefs_isInMerge: "isInMerge (heap (snd (decRefs pws s)) b) = isInMerge (heap s b)"
proof (induction pws arbitrary: s)
  case Nil
  then show ?case by simp
next
  case (Cons a pws)
  then show ?case
    using decRef_isInMerge[of a s b]
    by (cases "decRef a s") (auto split: outcome.splits)
qed

lemma decRefs_refCount:
  "fst (decRefs pws s) = Return () \<Longrightarrow>
   refCount (heap (snd (decRefs pws s)) b) = refCount (heap s b) - of_nat (count_list pws b)"
proof (induction pws arbitrary: s)
  case Nil
  then show ?case by simp
next
  case (Cons a pws)
  obtain r s1 where d: "decRef a s = (r, s1)" by (cases "decRef a s")
  with Cons.prems have r: "r = Return ()" by (auto split: outcome.splits)
  with Cons.prems d have "fst (decRefs pws s1) = Return ()" by simp
  from Cons.IH[OF this] have ih:
    "refCount (heap (snd (decRefs pws s1)) b) = refCount (heap s1 b) - of_nat (count_list pws b)" .
  have "refCount (heap s1 b) = (if b = a then refCount (heap s b) - 1 else refCount (heap s b))"
    using d decRef_refCount[of a s] decRef_heap_other[of b a s] by auto
  then show ?case using ih d r by auto
qed

lemma decRefs_ok:
  assumes "distinct pws"
    and "\<forall>a \<in> set pws. 1 \<le> refCount (heap s a) \<and> refCount (heap s a) \<le> 2 ^ 63
           \<and> pw_p (heap s a) \<noteq> None"
  shows "fst (decRefs pws s) = Return ()"
  using assms
proof (induction pws arbitrary: s)
  case Nil
  then show ?case by simp
next
  case (Cons a pws)
  obtain r s1 where d: "decRef a s = (r, s1)" by (cases "decRef a s")
  have a: "1 \<le> refCount (heap s a)" "refCount (heap s a) \<le> 2 ^ 63" "pw_p (heap s a) \<noteq> None"
    using Cons.prems(2) by auto
  have "refCount (heap s a) \<noteq> 0" using a(1) by auto
  then have r: "r = Return ()"
    using d a decRef_fst[of a s] by (auto split: if_splits)
  have "\<forall>b \<in> set pws. heap s1 b = heap s b"
  proof
    fix b assume "b \<in> set pws"
    then have "b \<noteq> a" using Cons.prems(1) by auto
    then show "heap s1 b = heap s b" using d decRef_heap_other[of b a s] by simp
  qed
  then have "fst (decRefs pws s1) = Return ()"
    using Cons.IH[of s1] Cons.prems by auto
  then show ?case using d r by simp
qed

lemma upd_pw_simps [simp]:
  "heap (upd_pw a f s) = (heap s)(a := f (heap s a))"
  "smallParts (upd_pw a f s) = smallParts s"
  "bigParts (upd_pw a f s) = bigParts s"
  "heap_next (upd_pw a f s) = heap_next s"
  "smallAssistedMerges (upd_pw a f s) = smallAssistedMerges s"
  "trace (upd_pw a f s) = trace s"
  "fs (upd_pw a f s) = fs s"
  "rawRows (upd_pw a f s) = rawRows s"
  by (simp_all add: upd_pw_def)

lemma clearInMerge_lists [simp]:
  "smallParts (snd (clearInMerge pws s)) = smallParts s"
  "bigParts (snd (clearInMerge pws s)) = bigParts s"
  "heap_next (snd (clearInMerge pws s)) = heap_next s"
  "smallAssistedMerges (snd (clearInMerge pws s)) = smallAssistedMerges s"
  "trace (snd (clearInMerge pws s)) = trace s"
  by (induction pws arbitrary: s; simp split: option.splits)+

lemma clearInMerge_heap:
  "refCount (heap (snd (clearInMerge pws s)) b) = refCount (heap s b)"
  "pw_p (heap (snd (clearInMerge pws s)) b) = pw_p (heap s b)"
  "pw_mp (heap (snd (clearInMerge pws s)) b) = pw_mp (heap s b)"
  "b \<notin> set pws \<Longrightarrow> heap (snd (clearInMerge pws s)) b = heap s b"
  by (induction pws arbitrary: s; simp split: option.splits)+

lemma clearInMerge_never_sets:
  "isInMerge (heap (snd (clearInMerge pws s)) b) \<Longrightarrow> isInMerge (heap s b)"
proof (induction pws arbitrary: s)
  case Nil
  then show ?case by simp
next
  case (Cons x pws)
  show ?case
  proof (cases "isInMerge (heap s x)")
    case False
    then show ?thesis using Cons.prems by (simp split: option.splits)
  next
    case True
    define s1 where "s1 = upd_pw x (\<lambda>pw. pw\<lparr>isInMerge := False\<rparr>) s"
    have "isInMerge (heap (snd (clearInMerge pws s1)) b)"
      using Cons.prems True by (simp add: s1_def)
    then have "isInMerge (heap s1 b)" by (rule Cons.IH)
    then show ?thesis by (simp add: s1_def split: if_splits)
  qed
qed

lemma clearInMerge_cleared:
  "fst (clearInMerge pws s) = Return () \<Longrightarrow> a \<in> set pws \<Longrightarrow>
   \<not> isInMerge (heap (snd (clearInMerge pws s)) a)"
proof (induction pws arbitrary: s)
  case Nil
  then show ?case by simp
next
  case (Cons x pws)
  define s1 where "s1 = upd_pw x (\<lambda>pw. pw\<lparr>isInMerge := False\<rparr>) s"
  have t: "isInMerge (heap s x)"
    using Cons.prems(1) by (auto split: option.splits if_splits)
  then have e: "clearInMerge (x # pws) s = clearInMerge pws s1" by (simp add: s1_def)
  show ?case
  proof (cases "a \<in> set pws")
    case True
    then show ?thesis using Cons.IH[of s1] Cons.prems(1) e by simp
  next
    case False
    then have "a = x" using Cons.prems(2) by simp
    moreover have "\<not> isInMerge (heap s1 x)" by (simp add: s1_def)
    ultimately show ?thesis
      using clearInMerge_never_sets[of pws s1 x] e by auto
  qed
qed

lemma clearInMerge_panics:
  "\<exists>a \<in> set pws. \<not> isInMerge (heap s a) \<Longrightarrow> \<exists>m. fst (clearInMerge pws s) = Panic m"
proof (induction pws arbitrary: s)
  case Nil
  then show ?case by simp
next
  case (Cons x pws)
  show ?case
  proof (cases "isInMerge (heap s x)")
    case False
    then show ?thesis by (simp split: option.splits)
  next
    case True
    define s1 where "s1 = upd_pw x (\<lambda>pw. pw\<lparr>isInMerge := False\<rparr>) s"
    from Cons.prems True obtain a where a: "a \<in> set pws" "\<not> isInMerge (heap s a)" by auto
    then have "\<not> isInMerge (heap s1 a)" by (simp add: s1_def)
    with a have "\<exists>m. fst (clearInMerge pws s1) = Panic m" using Cons.IH[of s1] by blast
    then show ?thesis using True by (simp add: s1_def)
  qed
qed

lemma clearInMerge_ok:
  "distinct pws \<Longrightarrow> \<forall>a \<in> set pws. isInMerge (heap s a) \<Longrightarrow> fst (clearInMerge pws s) = Return ()"
proof (induction pws arbitrary: s)
  case Nil
  then show ?case by simp
next
  case (Cons x pws)
  define s1 where "s1 = upd_pw x (\<lambda>pw. pw\<lparr>isInMerge := False\<rparr>) s"
  have "\<forall>a \<in> set pws. isInMerge (heap s1 a)"
    using Cons.prems by (auto simp: s1_def)
  then have "fst (clearInMerge pws s1) = Return ()"
    using Cons.IH[of s1] Cons.prems(1) by simp
  then show ?case using Cons.prems(2) by (simp add: s1_def)
qed

section \<open>Claim C7: decRef\<close>



section \<open>Claim C10: empty inputs\<close>

text \<open>
  C10. \<open>AddRows\<close> with no rows returns at once and leaves the whole state as it is;
  \<open>addRowsPart\<close> with no rows returns without creating a part; and a flush of the raw
  rows that finds the buffer empty returns normally and adds no handle: both part
  lists, the store of handles and the trace are unchanged.
\<close>

theorem empty_input_changes_nothing:
  "AddRows en [] s = Some (Return (), s)
   \<and> addRowsPart en [] s = (Return (), s)
   \<and> (rawRows s = [] \<longrightarrow>
        (\<exists>old. fst (flushRawRows en newRawRows isFinal s) = Return old)
        \<and> smallParts (snd (flushRawRows en newRawRows isFinal s)) = smallParts s
        \<and> bigParts (snd (flushRawRows en newRawRows isFinal s)) = bigParts s
        \<and> heap (snd (flushRawRows en newRawRows isFinal s)) = heap s
        \<and> heap_next (snd (flushRawRows en newRawRows isFinal s)) = heap_next s
        \<and> trace (snd (flushRawRows en newRawRows isFinal s)) = trace s)"
  by (simp add: AddRows_def addRowsPart_def flushRawRows_def Let_def)

theorem empty_input_changes_nothing_witness:
  "rawRows state0 = []
   \<and> fst (flushRawRows mem_env ([], 0) False state0) = Return ([], 0)
   \<and> smallParts (snd (flushRawRows mem_env ([], 0) False state0)) = []
   \<and> heap_next (snd (flushRawRows mem_env ([], 0) False state0)) = 0"
  using empty_input_changes_nothing [of mem_env state0 "([], 0)" False]
  by (simp add: state0_def flushRawRows_def mem_env_def rawRowsFlushInterval_def addRowsPart_def)

section \<open>Claim C8: buffer swaps of AddRows\<close>

lemma bitlen_nat_bound: "n < 2 ^ bitlen_nat n"
proof (induction n rule: bitlen_nat.induct)
  case (1 n)
  show ?case
  proof (cases "n = 0")
    case True
    then show ?thesis by (simp add: bitlen_nat.simps)
  next
    case False
    then have "n div 2 < 2 ^ bitlen_nat (n div 2)" using 1 by simp
    then have "n < 2 * 2 ^ bitlen_nat (n div 2)" by linarith
    then show ?thesis using False by (subst bitlen_nat.simps) simp
  qed
qed

lemma bitlen_nat_mono: "m \<le> n \<Longrightarrow> bitlen_nat m \<le> bitlen_nat n"
proof (induction n arbitrary: m rule: bitlen_nat.induct)
  case (1 n)
  show ?case
  proof (cases "m = 0")
    case True
    then show ?thesis by (simp add: bitlen_nat.simps)
  next
    case False
    then have n0: "n \<noteq> 0" using 1(2) by auto
    have "m div 2 \<le> n div 2" using 1(2) by (simp add: div_le_mono)
    then have "bitlen_nat (m div 2) \<le> bitlen_nat (n div 2)" using 1(1)[OF n0] by simp
    then show ?thesis using False n0 by (simp add: bitlen_nat.simps[of m] bitlen_nat.simps[of n])
  qed
qed

lemma bitlen_pow18: "bitlen_nat (2 ^ 18 - 1) = 18"
  by (simp add: bitlen_nat.simps)

lemma getRawRowsPool_rounded:
  assumes "0 < n" "n \<le> 262144"
  shows "nat n \<le> snd (getRawRowsPool n)"
proof -
  have le: "nat (n - 1) \<le> 2 ^ 18 - 1" using assms by simp
  have "bitlen_nat (nat (n - 1)) \<le> 18"
    using bitlen_nat_mono[OF le] bitlen_pow18 by simp
  moreover have "nat (n - 1) < 2 ^ bitlen_nat (nat (n - 1))" by (rule bitlen_nat_bound)
  ultimately show ?thesis
    using assms by (simp add: getRawRowsPool_def Let_def)
qed

lemma getRawRowsMaxSize_empty: "fst (fst (getRawRowsMaxSize en s)) = []"
  by (simp add: getRawRowsMaxSize_def getRawRowsWithSize_def split: prod.splits list.splits)

lemma getMaxRawRowsPerPartition_pos: "0 < getMaxRawRowsPerPartition en"
  by (simp add: getMaxRawRowsPerPartition_def Let_def)

lemma new_buffer_holds_batch:
  assumes "getMaxRawRowsPerPartition en \<le> 262144"
    and "rawRowsPools s (fst (getRawRowsPool (getMaxRawRowsPerPartition en))) = []"
  shows "nat (getMaxRawRowsPerPartition en) \<le> snd (fst (getRawRowsMaxSize en s))"
proof -
  obtain b r where br: "getRawRowsPool (getMaxRawRowsPerPartition en) = (b, r)"
    by (cases "getRawRowsPool (getMaxRawRowsPerPartition en)")
  have "nat (getMaxRawRowsPerPartition en) \<le> r"
    using getRawRowsPool_rounded[OF getMaxRawRowsPerPartition_pos assms(1)] br by simp
  then show ?thesis
    using assms(2) br by (simp add: getRawRowsMaxSize_def getRawRowsWithSize_def)
qed

lemma addRowsLoop_one_swap:
  assumes n: "int (length rows) = getMaxRawRowsPerPartition en"
    and fresh: "length rows \<le> snd (fst (getRawRowsMaxSize en s))"
  shows "\<exists>rrs s'. addRowsLoop en rows [] s = Some (rrs, s') \<and> length rrs \<le> 1
           \<and> (rrs = [] \<longleftrightarrow> length rows \<le> rawRows_cap s - length (rawRows s))
           \<and> (rrs \<noteq> [] \<longrightarrow>
                 rrs = [(rawRows s @ take (rawRows_cap s - length (rawRows s)) rows, rawRows_cap s)]
                 \<and> rawRows s' = drop (rawRows_cap s - length (rawRows s)) rows)
           \<and> (validateRows en s rows = Return () \<longrightarrow>
                 AddRows en rows s = Some (addSwapped en rrs s'))"
proof -
  have pos: "rows \<noteq> []"
    using n getMaxRawRowsPerPartition_pos[of en] by auto
  define c where "c = rawRows_cap s - length (rawRows s)"
  show ?thesis
  proof (cases "length rows \<le> c")
    case True
    then have "addRowsLoop en rows [] s = Some ([], s\<lparr>rawRows := rawRows s @ rows\<rparr>)"
      by (subst addRowsLoop.simps) (simp add: c_def)
    then show ?thesis using True pos by (simp add: c_def AddRows_def)
  next
    case False
    define s1 where "s1 = (snd (getRawRowsMaxSize en s))
             \<lparr>rawRows := fst (fst (getRawRowsMaxSize en s)),
              rawRows_cap := snd (fst (getRawRowsMaxSize en s)),
              rawRowsLastFlushTime := time_Now en\<rparr>"
    define rr where "rr = (rawRows s @ take c rows, rawRows_cap s)"
    have step: "addRowsLoop en rows [] s = addRowsLoop en (drop c rows) [rr] s1"
      using False by (subst addRowsLoop.simps) (simp add: c_def s1_def rr_def)
    have fits: "length (drop c rows) \<le> rawRows_cap s1 - length (rawRows s1)"
      using fresh by (simp add: s1_def getRawRowsMaxSize_empty)
    have "addRowsLoop en (drop c rows) [rr] s1 = Some ([rr], s1\<lparr>rawRows := rawRows s1 @ drop c rows\<rparr>)"
      using fits by (subst addRowsLoop.simps) simp
    with step have res: "addRowsLoop en rows [] s = Some ([rr], s1\<lparr>rawRows := rawRows s1 @ drop c rows\<rparr>)"
      by simp
    have "rawRows s1 = []" by (simp add: s1_def getRawRowsMaxSize_empty)
    then show ?thesis
      using res False pos by (simp add: c_def rr_def AddRows_def)
  qed
qed

text \<open>
  C8, as stated, fails: with room for 500000 raw rows per partition (any process that may
  use 6.2 GB or more) a new buffer has the capacity \<open>2^18 = 262144\<close>, the size of the
  last pool. A batch of 500000 rows that meets a buffer of capacity 500000 holding
  400000 rows is swapped out twice.
\<close>

theorem AddRows_two_swaps:
  "getMaxRawRowsPerPartition mem_env_large = 500000
   \<and> map_option (\<lambda>r. length (fst r))
        (addRowsLoop mem_env_large (replicate 500000 row0) []
           (state0\<lparr>rawRows := replicate 400000 row0, rawRows_cap := 500000\<rparr>)) = Some 2"
proof -
  have n: "getMaxRawRowsPerPartition mem_env_large = 500000"
    by (simp add: getMaxRawRowsPerPartition_def mem_env_large_def mem_env_def)
  have b: "bitlen_nat 499999 = 19"
    by (simp add: bitlen_nat.simps)
  have pl: "getRawRowsPool 500000 = (18, 262144)"
    by (simp add: getRawRowsPool_def Let_def b)
  have "map_option (\<lambda>r. length (fst r))
        (addRowsLoop mem_env_large (replicate 500000 row0) []
           (state0\<lparr>rawRows := replicate 400000 row0, rawRows_cap := 500000\<rparr>)) = Some 2"
    apply (subst addRowsLoop.simps)
    apply (simp add: getRawRowsMaxSize_def getRawRowsWithSize_def n pl state0_def)
    apply (subst addRowsLoop.simps)
    apply (simp add: getRawRowsMaxSize_def getRawRowsWithSize_def n pl state0_def)
    apply (subst addRowsLoop.simps)
    apply (simp add: getRawRowsMaxSize_def getRawRowsWithSize_def n pl state0_def)
    done
  with n show ?thesis by simp
qed

text \<open>
  C8, amended. A call of \<open>AddRows\<close> with exactly \<open>maxRawRowsPerPartition\<close> rows, on any
  buffer (any capacity, any fill level), swaps the buffer at most once provided the
  buffer that \<open>getRawRowsMaxSize\<close> hands out can hold the batch: no swap when the batch
  fits the remaining capacity; otherwise the buffer is filled to its capacity and
  swapped out once, and the rest goes to the new buffer. A newly allocated buffer can
  hold the batch whenever \<open>maxRawRowsPerPartition\<close> is at most \<open>2^18 = 262144\<close>.
\<close>

theorem AddRows_at_most_one_swap:
  assumes "int (length rows) = getMaxRawRowsPerPartition en"
  shows "(length rows \<le> snd (fst (getRawRowsMaxSize en s)) \<longrightarrow>
          (\<exists>rrs s'. addRowsLoop en rows [] s = Some (rrs, s') \<and> length rrs \<le> 1
             \<and> (rrs = [] \<longleftrightarrow> length rows \<le> rawRows_cap s - length (rawRows s))
             \<and> (rrs \<noteq> [] \<longrightarrow>
                   rrs = [(rawRows s @ take (rawRows_cap s - length (rawRows s)) rows, rawRows_cap s)]
                   \<and> rawRows s' = drop (rawRows_cap s - length (rawRows s)) rows)
             \<and> (validateRows en s rows = Return () \<longrightarrow>
                   AddRows en rows s = Some (addSwapped en rrs s'))))
         \<and> (getMaxRawRowsPerPartition en \<le> 262144
              \<and> rawRowsPools s (fst (getRawRowsPool (getMaxRawRowsPerPartition en))) = [] \<longrightarrow>
            length rows \<le> snd (fst (getRawRowsMaxSize en s)))"
proof (intro conjI impI)
  assume "length rows \<le> snd (fst (getRawRowsMaxSize en s))"
  from addRowsLoop_one_swap[OF assms this]
  show "\<exists>rrs s'. addRowsLoop en rows [] s = Some (rrs, s') \<and> length rrs \<le> 1
             \<and> (rrs = [] \<longleftrightarrow> length rows \<le> rawRows_cap s - length (rawRows s))
             \<and> (rrs \<noteq> [] \<longrightarrow>
                   rrs = [(rawRows s @ take (rawRows_cap s - length (rawRows s)) rows, rawRows_cap s)]
                   \<and> rawRows s' = drop (rawRows_cap s - length (rawRows s)) rows)
             \<and> (validateRows en s rows = Return () \<longrightarrow>
                   AddRows en rows s = Some (addSwapped en rrs s'))" .
next
  assume h: "getMaxRawRowsPerPartition en \<le> 262144
              \<and> rawRowsPools s (fst (getRawRowsPool (getMaxRawRowsPerPartition en))) = []"
  have "nat (getMaxRawRowsPerPartition en) = length rows" using assms by simp
  then show "length rows \<le> snd (fst (getRawRowsMaxSize en s))"
    using new_buffer_holds_batch[of en s] h by simp
qed

theorem AddRows_at_most_one_swap_witness:
  "int (length (replicate 87381 row0)) = getMaxRawRowsPerPartition mem_env
   \<and> getMaxRawRowsPerPartition mem_env \<le> 262144
   \<and> rawRowsPools (state0\<lparr>rawRows := replicate 100000 row0, rawRows_cap := 131072\<rparr>)
        (fst (getRawRowsPool (getMaxRawRowsPerPartition mem_env))) = []
   \<and> length (replicate 87381 row0)
        \<le> snd (fst (getRawRowsMaxSize mem_env (state0\<lparr>rawRows := replicate 100000 row0, rawRows_cap := 131072\<rparr>)))
   \<and> (\<exists>rrs s'. addRowsLoop mem_env (replicate 87381 row0) []
                   (state0\<lparr>rawRows := replicate 100000 row0, rawRows_cap := 131072\<rparr>) = Some (rrs, s')
         \<and> length rrs = 1 \<and> length (fst (hd rrs)) = 131072 \<and> length (rawRows s') = 56309)"
proof -
  have n: "getMaxRawRowsPerPartition mem_env = 87381"
    by (simp add: getMaxRawRowsPerPartition_def mem_env_def)
  have len: "int (length (replicate 87381 row0)) = getMaxRawRowsPerPartition mem_env"
    using n by simp
  have pool: "rawRowsPools (state0\<lparr>rawRows := replicate 100000 row0, rawRows_cap := 131072\<rparr>)
        (fst (getRawRowsPool (getMaxRawRowsPerPartition mem_env))) = []"
    by (simp add: state0_def)
  from AddRows_at_most_one_swap [OF len, of "state0\<lparr>rawRows := replicate 100000 row0, rawRows_cap := 131072\<rparr>"]
       n pool
  have fresh: "length (replicate 87381 row0)
        \<le> snd (fst (getRawRowsMaxSize mem_env (state0\<lparr>rawRows := replicate 100000 row0, rawRows_cap := 131072\<rparr>)))"
    by simp
  from AddRows_at_most_one_swap [OF len, of "state0\<lparr>rawRows := replicate 100000 row0, rawRows_cap := 131072\<rparr>"]
       fresh
  obtain rrs s' where r:
    "addRowsLoop mem_env (replicate 87381 row0) []
        (state0\<lparr>rawRows := replicate 100000 row0, rawRows_cap := 131072\<rparr>) = Some (rrs, s')"
    "rrs = [] \<longleftrightarrow> length (replicate 87381 row0) \<le> (131072::nat) - length (replicate 100000 row0)"
    "rrs \<noteq> [] \<longrightarrow> rrs = [(replicate 100000 row0 @ take (131072 - length (replicate 100000 row0)) (replicate 87381 row0), 131072)]
         \<and> rawRows s' = drop (131072 - length (replicate 100000 row0)) (replicate 87381 row0)"
    by auto
  from r(2) have ne: "rrs \<noteq> []" by simp
  with r(3) have "length rrs = 1 \<and> length (fst (hd rrs)) = 131072 \<and> length (rawRows s') = 56309"
    by simp
  with r(1) have ex: "\<exists>rrs s'. addRowsLoop mem_env (replicate 87381 row0) []
                   (state0\<lparr>rawRows := replicate 100000 row0, rawRows_cap := 131072\<rparr>) = Some (rrs, s')
         \<and> length rrs = 1 \<and> length (fst (hd rrs)) = 131072 \<and> length (rawRows s') = 56309"
    by blast
  have "getMaxRawRowsPerPartition mem_env \<le> 262144" using n by simp
  with len pool fresh ex show ?thesis by (intro conjI)
qed

section \<open>Frames of the merge\<close>

lemma emit_simps [simp]:
  "heap (emit e s) = heap s"
  "smallParts (emit e s) = smallParts s"
  "bigParts (emit e s) = bigParts s"
  "heap_next (emit e s) = heap_next s"
  "smallAssistedMerges (emit e s) = smallAssistedMerges s"
  "trace (emit e s) = trace s @ [e]"
  "fs (emit e s) = fs s"
  by (simp_all add: emit_def)

lemma removeParts_simps [simp]:
  "fst (removeParts pws R) = filter (\<lambda>pw. pw \<notin> R) pws"
  "snd (removeParts pws R) = length (filter (\<lambda>pw. pw \<in> R) pws)"
  by (simp_all add: removeParts_def)

lemma mergeParts_write_frame:
  assumes "mergeParts_write en pws stopCh s = (r, s1)"
  shows "smallParts s1 = smallParts s
   \<and> bigParts s1 = bigParts s
   \<and> heap s1 = heap s
   \<and> heap_next s1 = heap_next s
   \<and> smallAssistedMerges s1 = smallAssistedMerges s
   \<and> smallPartsPath s1 = smallPartsPath s
   \<and> bigPartsPath s1 = bigPartsPath s
   \<and> (\<forall>big dst. r = Inr (big, dst) \<longrightarrow> big = isBigPart s pws)"
  using assms
  by (auto simp: mergeParts_write_def Let_def nextMergeIdx_def emit_def addMergeCounters_def
           split: outcome.splits sum.splits prod.splits option.splits if_splits)

text \<open>The state in which \<open>installMerged\<close> drops the references.\<close>

lemma replaceParts_simps [simp]:
  "heap (replaceParts pws big newPW s) = heap s"
  "heap_next (replaceParts pws big newPW s) = heap_next s"
  "smallAssistedMerges (replaceParts pws big newPW s) = smallAssistedMerges s"
  "trace (replaceParts pws big newPW s) = trace s"
  "fs (replaceParts pws big newPW s) = fs s"
  "smallParts (replaceParts pws big newPW s) = filter (\<lambda>pw. pw \<notin> set pws) (smallParts s)
                @ (case newPW of Some a \<Rightarrow> if big then [] else [a] | None \<Rightarrow> [])"
  "bigParts (replaceParts pws big newPW s) = filter (\<lambda>pw. pw \<notin> set pws) (bigParts s)
                @ (case newPW of Some a \<Rightarrow> if big then [a] else [] | None \<Rightarrow> [])"
  by (cases newPW; cases big; simp add: replaceParts_def Let_def)+

lemma installMerged_cases:
  "installMerged pws big newPW s =
     (if \<not> distinct pws then (Panic ''BUG: duplicate parts found in the merge'', s)
      else if length (filter (\<lambda>pw. pw \<in> set pws) (smallParts s))
              + length (filter (\<lambda>pw. pw \<in> set pws) (bigParts s)) \<noteq> length pws
      then (Panic ''BUG: unexpected number of parts removed'', replaceParts pws big newPW s)
      else decRefs pws (replaceParts pws big newPW s))"
  by (auto simp: installMerged_def Let_def card_distinct distinct_card)

lemma installMerged_frame:
  assumes "installMerged pws big newPW s = (r, s')"
  shows "heap_next s' = heap_next s
    \<and> smallAssistedMerges s' = smallAssistedMerges s
    \<and> (\<forall>b. isInMerge (heap s' b) = isInMerge (heap s b))
    \<and> (\<forall>b. b \<notin> set pws \<longrightarrow> heap s' b = heap s b)
    \<and> (s' = s \<or>
          smallParts s' = filter (\<lambda>pw. pw \<notin> set pws) (smallParts s)
                @ (case newPW of Some a \<Rightarrow> if big then [] else [a] | None \<Rightarrow> [])
          \<and> bigParts s' = filter (\<lambda>pw. pw \<notin> set pws) (bigParts s)
                @ (case newPW of Some a \<Rightarrow> if big then [a] else [] | None \<Rightarrow> []))
    \<and> (r = Return () \<longrightarrow>
          distinct pws
          \<and> smallParts s' = filter (\<lambda>pw. pw \<notin> set pws) (smallParts s)
                @ (case newPW of Some a \<Rightarrow> if big then [] else [a] | None \<Rightarrow> [])
          \<and> bigParts s' = filter (\<lambda>pw. pw \<notin> set pws) (bigParts s)
                @ (case newPW of Some a \<Rightarrow> if big then [a] else [] | None \<Rightarrow> [])
          \<and> (\<forall>b. refCount (heap s' b) = refCount (heap s b) - of_nat (count_list pws b)))"
proof -
  define s2 where "s2 = replaceParts pws big newPW s"
  have dr: "decRefs pws s2 = (r, s') \<Longrightarrow> ?thesis"
  proof -
    assume a: "decRefs pws s2 = (r, s')"
    then have e: "r = fst (decRefs pws s2)" "s' = snd (decRefs pws s2)" by simp_all
    have rc: "r = Return () \<longrightarrow> (\<forall>b. refCount (heap s' b) = refCount (heap s b) - of_nat (count_list pws b))"
      using e decRefs_refCount[of pws s2] by (simp add: s2_def)
    have nd: "r = Return () \<longrightarrow> distinct pws"
      using assms a by (auto simp: installMerged_cases s2_def split: if_splits)
    show ?thesis
      using e rc nd decRefs_isInMerge[of pws s2] decRefs_heap_other[of _ pws s2]
      by (simp add: s2_def)
  qed
  show ?thesis
    using assms dr by (auto simp: installMerged_cases s2_def split: if_splits)
qed

lemma finishMerge_simps [simp]:
  "snd (finishMerge x) = snd x"
  "fst (finishMerge x) = (case fst x of Panic m \<Rightarrow> Panic m | Return u \<Rightarrow> Return None)"
  by (cases x; cases "fst x"; simp add: finishMerge_def)+

lemma finishMerge_pair [simp]:
  "finishMerge (r0, s0) = (r, s') \<longleftrightarrow>
     s' = s0 \<and> r = (case r0 of Panic m \<Rightarrow> Panic m | Return u \<Rightarrow> Return None)"
  by (cases r0) (auto simp: finishMerge_def)

lemma newPartWrapper_simps [simp]:
  "fst (newPartWrapper pp m s) = heap_next s"
  "heap (snd (newPartWrapper pp m s)) =
     (heap s)(heap_next s := \<lparr>pw_p = Some pp, pw_mp = m, refCount = 1, isInMerge = False\<rparr>)"
  "heap_next (snd (newPartWrapper pp m s)) = Suc (heap_next s)"
  "smallParts (snd (newPartWrapper pp m s)) = smallParts s"
  "bigParts (snd (newPartWrapper pp m s)) = bigParts s"
  "smallAssistedMerges (snd (newPartWrapper pp m s)) = smallAssistedMerges s"
  "trace (snd (newPartWrapper pp m s)) = trace s"
  "fs (snd (newPartWrapper pp m s)) = fs s"
  by (simp_all add: newPartWrapper_def)

text \<open>What \<open>mergeParts_install\<close> does, by the path of the destination part.\<close>

lemma mergeParts_install_empty:
  "mergeParts_install en pws big [] s = finishMerge (installMerged pws big None s)"
  by (simp add: mergeParts_install_def)

lemma mergeParts_install_nonempty:
  "dst \<noteq> [] \<Longrightarrow> mergeParts_install en pws big dst s =
     (case openFilePart en dst (fs s) of
        None \<Rightarrow> (Return (Some (errOther ''cannot open merged part'')), emit (OpenFilePart dst) s)
      | Some newP \<Rightarrow>
          finishMerge (installMerged pws big (Some (heap_next s))
             (snd (newPartWrapper newP None (emit (OpenFilePart dst) s)))))"
  by (simp add: mergeParts_install_def newPartWrapper_def emit_def split: option.splits)

lemma mergeParts_install_frame:
  assumes "mergeParts_install en pws big dst s = (r, s')"
  shows "smallAssistedMerges s' = smallAssistedMerges s
    \<and> (\<forall>b. isInMerge (heap s' b) \<longrightarrow> isInMerge (heap s b))
    \<and> heap_next s \<le> heap_next s'
    \<and> (\<forall>b. b \<notin> set pws \<longrightarrow> b \<noteq> heap_next s \<longrightarrow> heap s' b = heap s b)"
proof (cases "dst = []")
  case True
  obtain r0 s0 where i: "installMerged pws big None s = (r0, s0)"
    by (cases "installMerged pws big None s")
  have "s' = s0" using assms True i by (simp add: mergeParts_install_empty)
  then show ?thesis using installMerged_frame[OF i] by simp
next
  case False
  show ?thesis
  proof (cases "openFilePart en dst (fs s)")
    case None
    then have "s' = emit (OpenFilePart dst) s"
      using assms False by (simp add: mergeParts_install_nonempty)
    then show ?thesis by simp
  next
    case (Some newP)
    define s1 where "s1 = snd (newPartWrapper newP None (emit (OpenFilePart dst) s))"
    obtain r0 s0 where i: "installMerged pws big (Some (heap_next s)) s1 = (r0, s0)"
      by (cases "installMerged pws big (Some (heap_next s)) s1")
    have "s' = s0" using assms False Some i by (simp add: mergeParts_install_nonempty s1_def)
    then show ?thesis using installMerged_frame[OF i] by (auto simp: s1_def split: if_splits)
  qed
qed


lemma mergeParts_body_frame:
  assumes "mergeParts_body en pws stopCh s = (r, s1)"
  shows "smallAssistedMerges s1 = smallAssistedMerges s
    \<and> (\<forall>b. isInMerge (heap s1 b) \<longrightarrow> isInMerge (heap s b))
    \<and> heap_next s \<le> heap_next s1
    \<and> (\<forall>b. b \<notin> set pws \<longrightarrow> b \<noteq> heap_next s \<longrightarrow> heap s1 b = heap s b)"
proof -
  obtain w sw where w: "mergeParts_write en pws stopCh s = (w, sw)"
    by (cases "mergeParts_write en pws stopCh s")
  note fw = mergeParts_write_frame[OF w]
  show ?thesis
  proof (cases w)
    case (Inl r0)
    then have "s1 = sw" using assms w by (simp add: mergeParts_body_def)
    then show ?thesis using fw by simp
  next
    case (Inr bd)
    obtain big dst where bd: "bd = (big, dst)" by (cases bd)
    have "mergeParts_install en pws big dst sw = (r, s1)"
      using assms w Inr bd by (simp add: mergeParts_body_def)
    from mergeParts_install_frame[OF this] show ?thesis using fw by simp
  qed
qed

section \<open>Claim C9: the isInMerge flag after mergeParts\<close>

text \<open>
  C9. Whatever \<open>mergeParts\<close> returns (nil, an error of a reader, of the writer, of the
  merge, \<open>errForciblyStopped\<close>, an error of the transaction or of opening the merged
  part), the flag \<open>isInMerge\<close> of every handle it was given is cleared when it
  returns; it panics when it finds the flag of one of them already cleared; and it never
  sets the flag of any handle.
\<close>

theorem mergeParts_clears_isInMerge:
  assumes "mergeParts en pws stopCh s = (r, s')"
  shows "(\<forall>res. r = Return res \<longrightarrow> (\<forall>a \<in> set pws. \<not> isInMerge (heap s' a)))
       \<and> ((\<exists>a \<in> set pws. \<not> isInMerge (heap s a)) \<longrightarrow> (\<exists>m. r = Panic m))
       \<and> (\<forall>b. isInMerge (heap s' b) \<longrightarrow> isInMerge (heap s b))"
proof (cases "pws = []")
  case True
  then show ?thesis using assms by (auto simp: mergeParts_def)
next
  case False
  obtain r1 s1 where b: "mergeParts_body en pws stopCh s = (r1, s1)"
    by (cases "mergeParts_body en pws stopCh s")
  note fb = mergeParts_body_frame[OF b]
  obtain r2 s2 where c: "clearInMerge pws s1 = (r2, s2)"
    by (cases "clearInMerge pws s1")
  have res: "(r, s') = (case r2 of Panic m \<Rightarrow> (Panic m, s2) | Return u \<Rightarrow> (r1, s2))"
    using assms False b c by (simp add: mergeParts_def)
  then have s': "s' = s2" by (cases r2) auto
  have never: "\<forall>b. isInMerge (heap s' b) \<longrightarrow> isInMerge (heap s b)"
    using clearInMerge_never_sets[of pws s1] c fb s' by auto
  have cleared: "\<forall>res. r = Return res \<longrightarrow> (\<forall>a \<in> set pws. \<not> isInMerge (heap s' a))"
  proof (intro allI impI ballI)
    fix res a assume "r = Return res" "a \<in> set pws"
    then have "r2 = Return ()" using res by (cases r2) auto
    then show "\<not> isInMerge (heap s' a)"
      using clearInMerge_cleared[of pws s1 a] c s' \<open>a \<in> set pws\<close> by simp
  qed
  have panics: "(\<exists>a \<in> set pws. \<not> isInMerge (heap s a)) \<longrightarrow> (\<exists>m. r = Panic m)"
  proof
    assume "\<exists>a \<in> set pws. \<not> isInMerge (heap s a)"
    then have "\<exists>a \<in> set pws. \<not> isInMerge (heap s1 a)" using fb by blast
    then obtain m where "r2 = Panic m" using clearInMerge_panics[of pws s1] c by auto
    then show "\<exists>m. r = Panic m" using res by simp
  qed
  show ?thesis using never cleared panics by blast
qed

lemma mergeParts_fails_to_open:
  "mergeParts mem_env [2, 3] True state_merging =
     (Return (Some (errOther ''cannot open source part for merging'')),
      state_merging\<lparr>heap := (\<lambda>a. if a = 2 \<or> a = 3 then handle0 1 else (handle0 1)\<lparr>isInMerge := True\<rparr>)\<rparr>)"
  by (simp add: mergeParts_def mergeParts_body_def mergeParts_write_def state_merging_def state0_def
        handle0_def mem_env_def mem_exists_def part0_def upd_pw_def fun_eq_iff)

theorem mergeParts_clears_isInMerge_witness:
  "fst (mergeParts mem_env [2, 3] True state_merging)
     = Return (Some (errOther ''cannot open source part for merging''))
   \<and> isInMerge (heap state_merging 2) \<and> isInMerge (heap state_merging 3)
   \<and> \<not> isInMerge (heap (snd (mergeParts mem_env [2, 3] True state_merging)) 2)
   \<and> \<not> isInMerge (heap (snd (mergeParts mem_env [2, 3] True state_merging)) 3)
   \<and> \<not> isInMerge (heap state0 3)
   \<and> (\<exists>m. fst (mergeParts mem_env [2, 3] True state0) = Panic m)"
proof -
  have a: "\<forall>a \<in> set [2, 3]. \<not> isInMerge (heap (snd (mergeParts mem_env [2, 3] True state_merging)) a)"
    using mergeParts_clears_isInMerge [of mem_env "[2, 3]" True state_merging
        "fst (mergeParts mem_env [2, 3] True state_merging)"
        "snd (mergeParts mem_env [2, 3] True state_merging)"]
    by (simp add: mergeParts_fails_to_open)
  have h: "\<exists>a \<in> set [2, 3]. \<not> isInMerge (heap state0 a)"
    by (auto simp: state0_def handle0_def)
  have b: "\<exists>m. fst (mergeParts mem_env [2, 3] True state0) = Panic m"
    using mergeParts_clears_isInMerge [of mem_env "[2, 3]" True state0
        "fst (mergeParts mem_env [2, 3] True state0)"
        "snd (mergeParts mem_env [2, 3] True state0)"] h
    by simp
  show ?thesis
    using a b by (simp add: mergeParts_fails_to_open) (simp add: state_merging_def state0_def handle0_def)
qed

section \<open>The events and the counts of a merge\<close>

lemma mergeParts_write_events:
  assumes "mergeParts_write en pws stopCh s = (r, s1)"
  shows "(\<exists>evs. trace s1 = trace s @ evs
            \<and> (evs = []
               \<or> evs = [InitWriter (tmpPartPath_of s pws) (isBigPart s pws)
                          (getCompressLevelForRowsCount (outRowsCount s pws))]
               \<or> (\<exists>d. evs = [InitWriter (tmpPartPath_of s pws) (isBigPart s pws)
                                (getCompressLevelForRowsCount (outRowsCount s pws)),
                              WriteFile (txnPath_of s pws) d])))
       \<and> r \<noteq> Inl (Return None)
       \<and> (\<forall>big dst. r = Inr (big, dst) \<longrightarrow>
             trace s1 = trace s @ [InitWriter (tmpPartPath_of s pws) (isBigPart s pws)
                                     (getCompressLevelForRowsCount (outRowsCount s pws)),
                                   WriteFile (txnPath_of s pws)
                                     (txnData (heap s) pws (tmpPartPath_of s pws) dst)]
             \<and> (\<exists>bsrs f1 f2 ph merged deleted.
                   mergeBlockStreams en (tmpPartPath_of s pws) bsrs stopCh f1
                     = ((None, ph, merged, deleted), f2)
                   \<and> dst = dstPartPath_of en ph (ptPath_of s pws) (mergeIdx s + 1)))"
  using assms
  apply (auto simp: mergeParts_write_def Let_def nextMergeIdx_def emit_def addMergeCounters_def
                 tmpPartPath_of_def txnPath_of_def ptPath_of_def
           split: outcome.splits sum.splits prod.splits option.splits if_splits)
   apply blast+
  done


lemma decRef_trace:
  "\<exists>evs. trace (snd (decRef a s)) = trace s @ evs \<and> (\<forall>e \<in> set evs. is_release e)"
  by (auto simp: decRef_def Let_def upd_pw_def emit_def split: option.splits)

lemma decRefs_trace:
  "\<exists>evs. trace (snd (decRefs pws s)) = trace s @ evs \<and> (\<forall>e \<in> set evs. is_release e)"
proof (induction pws arbitrary: s)
  case Nil
  then show ?case by simp
next
  case (Cons a pws)
  obtain r s1 where d: "decRef a s = (r, s1)" by (cases "decRef a s")
  obtain evs1 where e1: "trace s1 = trace s @ evs1" "\<forall>e \<in> set evs1. is_release e"
    using decRef_trace[of a s] d by auto
  show ?case
  proof (cases r)
    case (Panic m)
    then show ?thesis using d e1 by auto
  next
    case (Return u)
    obtain evs2 where e2: "trace (snd (decRefs pws s1)) = trace s1 @ evs2" "\<forall>e \<in> set evs2. is_release e"
      using Cons.IH[of s1] by auto
    have "trace (snd (decRefs (a # pws) s)) = trace s @ (evs1 @ evs2)"
      using d Return e1 e2 by simp
    moreover have "\<forall>e \<in> set (evs1 @ evs2). is_release e" using e1 e2 by auto
    ultimately show ?thesis by blast
  qed
qed

lemma installMerged_trace:
  "\<exists>evs. trace (snd (installMerged pws big newPW s)) = trace s @ evs \<and> (\<forall>e \<in> set evs. is_release e)"
  using decRefs_trace[of pws "replaceParts pws big newPW s"]
  by (auto simp: installMerged_cases)

lemma filter_members_length:
  assumes "distinct xs" "distinct pws" "set pws \<subseteq> set xs"
  shows "length (filter (\<lambda>x. x \<in> set pws) xs) = length pws"
proof -
  have "distinct (filter (\<lambda>x. x \<in> set pws) xs)" using assms(1) by simp
  moreover have "set (filter (\<lambda>x. x \<in> set pws) xs) = set pws" using assms(3) by auto
  ultimately have "length (filter (\<lambda>x. x \<in> set pws) xs) = card (set pws)"
    using distinct_card by metis
  then show ?thesis using assms(2) distinct_card by metis
qed

lemma installMerged_ok:
  assumes d: "distinct pws"
    and reg: "distinct (smallParts s @ bigParts s)" "set pws \<subseteq> set (smallParts s @ bigParts s)"
    and refs: "\<forall>a \<in> set pws. 1 \<le> refCount (heap s a) \<and> refCount (heap s a) \<le> 2 ^ 63
                 \<and> pw_p (heap s a) \<noteq> None"
  shows "fst (installMerged pws big newPW s) = Return ()"
proof -
  have "length (filter (\<lambda>x. x \<in> set pws) (smallParts s @ bigParts s)) = length pws"
    using filter_members_length[OF reg(1) d reg(2)] .
  then have n: "length (filter (\<lambda>x. x \<in> set pws) (smallParts s))
              + length (filter (\<lambda>x. x \<in> set pws) (bigParts s)) = length pws"
    by simp
  have "fst (decRefs pws (replaceParts pws big newPW s)) = Return ()"
    by (rule decRefs_ok[OF d]) (use refs in simp)
  then show ?thesis
    using d n by (simp add: installMerged_cases)
qed

lemma mergeParts_write_ok:
  assumes "openReaders en s pws = Return (Inr bsrs)"
    and "\<not> nil_part s pws"
    and "bsw_InitFromFilePart en (tmpPartPath_of s pws) (isBigPart s pws)
           (getCompressLevelForRowsCount (outRowsCount s pws)) (fs s) = (True, f1)"
    and "mergeBlockStreams en (tmpPartPath_of s pws) bsrs stopCh f1 = ((None, ph, merged, deleted), f2)"
    and "fs_WriteFile en (txnPath_of s pws)
           (txnData (heap s) pws (tmpPartPath_of s pws)
              (dstPartPath_of en ph (ptPath_of s pws) (mergeIdx s + 1))) f2 = (True, f3)"
    and "runTransaction en (smallPartsPath s) (bigPartsPath s) (txnPath_of s pws) f3 = (None, f4)"
  shows "fst (mergeParts_write en pws stopCh s)
           = Inr (isBigPart s pws, dstPartPath_of en ph (ptPath_of s pws) (mergeIdx s + 1))
         \<and> fs (snd (mergeParts_write en pws stopCh s)) = f4"
  using assms
  by (cases "isBigPart s pws")
     (simp_all add: mergeParts_write_def Let_def nextMergeIdx_def emit_def addMergeCounters_def
                 tmpPartPath_of_def txnPath_of_def ptPath_of_def)


lemma mergeParts_install_trace:
  "\<exists>evs. trace (snd (mergeParts_install en pws big dst s))
            = trace s @ (if dst = [] then [] else [OpenFilePart dst]) @ evs
         \<and> (\<forall>e \<in> set evs. is_release e)"
proof (cases "dst = []")
  case True
  then show ?thesis
    using installMerged_trace[of pws big None s] by (simp add: mergeParts_install_empty)
next
  case False
  show ?thesis
  proof (cases "openFilePart en dst (fs s)")
    case None
    then show ?thesis using False by (simp add: mergeParts_install_nonempty)
  next
    case (Some newP)
    then show ?thesis
      using False installMerged_trace[of pws big "Some (heap_next s)"
                "snd (newPartWrapper newP None (emit (OpenFilePart dst) s))"]
      by (simp add: mergeParts_install_nonempty)
  qed
qed

lemma mergeParts_install_done:
  assumes "mergeParts_install en pws big dst s = (Return None, s')"
  shows "distinct pws
    \<and> heap_next s' = (if dst = [] then heap_next s else Suc (heap_next s))
    \<and> smallParts s' = filter (\<lambda>pw. pw \<notin> set pws) (smallParts s)
         @ (if dst = [] \<or> big then [] else [heap_next s])
    \<and> bigParts s' = filter (\<lambda>pw. pw \<notin> set pws) (bigParts s)
         @ (if dst = [] \<or> \<not> big then [] else [heap_next s])
    \<and> (dst \<noteq> [] \<longrightarrow> openFilePart en dst (fs s) \<noteq> None)
    \<and> (\<forall>b. b \<noteq> heap_next s \<or> dst = [] \<longrightarrow>
           refCount (heap s' b) = refCount (heap s b) - of_nat (count_list pws b))"
proof (cases "dst = []")
  case True
  obtain r0 s0 where i: "installMerged pws big None s = (r0, s0)"
    by (cases "installMerged pws big None s")
  have "s' = s0" "r0 = Return ()"
    using assms True i by (auto simp: mergeParts_install_empty split: outcome.splits)
  then show ?thesis using installMerged_frame[OF i] True by simp
next
  case False
  show ?thesis
  proof (cases "openFilePart en dst (fs s)")
    case None
    then show ?thesis using assms False by (simp add: mergeParts_install_nonempty)
  next
    case (Some newP)
    define s1 where "s1 = snd (newPartWrapper newP None (emit (OpenFilePart dst) s))"
    obtain r0 s0 where i: "installMerged pws big (Some (heap_next s)) s1 = (r0, s0)"
      by (cases "installMerged pws big (Some (heap_next s)) s1")
    have "s' = s0" "r0 = Return ()"
      using assms False Some i by (auto simp: mergeParts_install_nonempty s1_def split: outcome.splits)
    then show ?thesis using installMerged_frame[OF i] False Some by (auto simp: s1_def)
  qed
qed


lemma foldl_add_sum_list:
  fixes f :: "'a \<Rightarrow> 'b::comm_monoid_add"
  shows "foldl (\<lambda>acc x. acc + f x) z xs = z + sum_list (map f xs)"
  by (induction xs arbitrary: z) (simp_all add: add.assoc)

lemma outRowsCount_sum: "outRowsCount s pws = sum_list (map (\<lambda>a. RowsCount (hdr_of s a)) pws)"
  by (simp add: outRowsCount_def foldl_add_sum_list)

lemma unat_sum_list_no_overflow:
  fixes ws :: "uint64 list"
  shows "sum_list (map unat ws) < 2 ^ 64 \<Longrightarrow> unat (sum_list ws) = sum_list (map unat ws)"
proof (induction ws)
  case Nil
  then show ?case by simp
next
  case (Cons w ws)
  then have "sum_list (map unat ws) < 2 ^ 64" by simp
  then have ih: "unat (sum_list ws) = sum_list (map unat ws)" using Cons.IH by simp
  have "unat (w + sum_list ws) = (unat w + unat (sum_list ws)) mod 2 ^ 64"
    by (simp add: unat_word_ariths)
  then show ?case using ih Cons.prems by simp
qed

lemma count_list_distinct: "distinct xs \<Longrightarrow> a \<in> set xs \<Longrightarrow> count_list xs a = 1"
  by (induction xs) auto

lemma installMerged_counts:
  assumes "installMerged pws big newPW s = (Return (), s')"
  shows "length (filter (\<lambda>pw. pw \<in> set pws) (smallParts s))
          + length (filter (\<lambda>pw. pw \<in> set pws) (bigParts s)) = length pws"
  using assms by (auto simp: installMerged_cases split: if_splits)

lemma mergeParts_install_counts:
  assumes "mergeParts_install en pws big dst s = (Return None, s')"
  shows "length (filter (\<lambda>pw. pw \<in> set pws) (smallParts s))
          + length (filter (\<lambda>pw. pw \<in> set pws) (bigParts s)) = length pws"
proof (cases "dst = []")
  case True
  obtain r0 s0 where i: "installMerged pws big None s = (r0, s0)"
    by (cases "installMerged pws big None s")
  have "r0 = Return ()"
    using assms True i by (auto simp: mergeParts_install_empty split: outcome.splits)
  then show ?thesis using installMerged_counts[of pws big None s s0] i by simp
next
  case False
  show ?thesis
  proof (cases "openFilePart en dst (fs s)")
    case None
    then show ?thesis using assms False by (simp add: mergeParts_install_nonempty)
  next
    case (Some newP)
    define s1 where "s1 = snd (newPartWrapper newP None (emit (OpenFilePart dst) s))"
    obtain r0 s0 where i: "installMerged pws big (Some (heap_next s)) s1 = (r0, s0)"
      by (cases "installMerged pws big (Some (heap_next s)) s1")
    have "r0 = Return ()"
      using assms False Some i by (auto simp: mergeParts_install_nonempty s1_def split: outcome.splits)
    then show ?thesis
      using installMerged_counts[of pws big "Some (heap_next s)" s1 s0] i by (simp add: s1_def)
  qed
qed

lemma none_removed:
  assumes "distinct pws" "set pws \<subseteq> set xs"
    and "length (filter (\<lambda>pw. pw \<in> set pws) xs) + length (filter (\<lambda>pw. pw \<in> set pws) ys) = length pws"
  shows "filter (\<lambda>pw. pw \<notin> set pws) ys = ys"
proof -
  have "set (filter (\<lambda>pw. pw \<in> set pws) xs) = set pws" using assms(2) by auto
  then have "card (set pws) \<le> length (filter (\<lambda>pw. pw \<in> set pws) xs)"
    using card_length by metis
  then have "length pws \<le> length (filter (\<lambda>pw. pw \<in> set pws) xs)"
    using assms(1) by (simp add: distinct_card)
  then have "length (filter (\<lambda>pw. pw \<in> set pws) ys) = 0" using assms(3) by linarith
  then have "\<forall>y \<in> set ys. y \<notin> set pws" by (simp add: filter_empty_conv)
  then show ?thesis by (simp add: filter_id_conv)
qed

lemma mergeParts_success:
  assumes ne: "pws \<noteq> []"
    and readers: "openReaders en s pws = Return (Inr bsrs)"
    and parts: "\<not> nil_part s pws"
    and writer: "bsw_InitFromFilePart en (tmpPartPath_of s pws) (isBigPart s pws)
           (getCompressLevelForRowsCount (outRowsCount s pws)) (fs s) = (True, f1)"
    and merged: "mergeBlockStreams en (tmpPartPath_of s pws) bsrs stopCh f1 = ((None, ph, nmerged, ndeleted), f2)"
    and dst: "dst = dstPartPath_of en ph (ptPath_of s pws) (mergeIdx s + 1)"
    and written: "fs_WriteFile en (txnPath_of s pws)
           (txnData (heap s) pws (tmpPartPath_of s pws) dst) f2 = (True, f3)"
    and txn: "runTransaction en (smallPartsPath s) (bigPartsPath s) (txnPath_of s pws) f3 = (None, f4)"
    and opened: "dst \<noteq> [] \<longrightarrow> openFilePart en dst f4 = Some newP"
    and d: "distinct pws"
    and reg: "distinct (smallParts s @ bigParts s)" "set pws \<subseteq> set (smallParts s @ bigParts s)"
    and alloc: "\<forall>a \<in> set pws. a < heap_next s"
    and flags: "\<forall>a \<in> set pws. isInMerge (heap s a)"
    and refs: "\<forall>a \<in> set pws. 1 \<le> refCount (heap s a) \<and> refCount (heap s a) \<le> 2 ^ 63"
  shows "\<exists>s'. mergeParts en pws stopCh s = (Return None, s')
          \<and> (\<exists>evs. trace s' = trace s
                  @ [InitWriter (tmpPartPath_of s pws) (isBigPart s pws)
                       (getCompressLevelForRowsCount (outRowsCount s pws)),
                     WriteFile (txnPath_of s pws) (txnData (heap s) pws (tmpPartPath_of s pws) dst)]
                  @ (if dst = [] then [] else [OpenFilePart dst])
                  @ evs
                \<and> (\<forall>e \<in> set evs. is_release e))
          \<and> heap_next s' = (if dst = [] then heap_next s else Suc (heap_next s))
          \<and> smallParts s' = filter (\<lambda>pw. pw \<notin> set pws) (smallParts s)
               @ (if dst = [] \<or> isBigPart s pws then [] else [heap_next s])
          \<and> bigParts s' = filter (\<lambda>pw. pw \<notin> set pws) (bigParts s)
               @ (if dst = [] \<or> \<not> isBigPart s pws then [] else [heap_next s])
          \<and> (\<forall>a \<in> set pws. refCount (heap s' a) = refCount (heap s a) - 1
                              \<and> \<not> isInMerge (heap s' a))"
proof -
  define big where "big = isBigPart s pws"
  obtain w sw where w: "mergeParts_write en pws stopCh s = (w, sw)"
    by (cases "mergeParts_write en pws stopCh s")
  have wv: "w = Inr (big, dst)" and fsw: "fs sw = f4"
    using mergeParts_write_ok[OF readers parts writer merged written[unfolded dst] txn] dst w
    by (simp_all add: big_def)
  note fw = mergeParts_write_frame[OF w]
  note ew = mergeParts_write_events[OF w]
  have tw: "trace sw = trace s
                  @ [InitWriter (tmpPartPath_of s pws) (isBigPart s pws)
                       (getCompressLevelForRowsCount (outRowsCount s pws)),
                     WriteFile (txnPath_of s pws) (txnData (heap s) pws (tmpPartPath_of s pws) dst)]"
    using ew wv by simp
  obtain r1 s1 where i: "mergeParts_install en pws big dst sw = (r1, s1)"
    by (cases "mergeParts_install en pws big dst sw")
  have body: "mergeParts_body en pws stopCh s = (r1, s1)"
    using w wv i by (simp add: mergeParts_body_def)
  have refs': "\<And>sx. (\<forall>a \<in> set pws. heap sx a = heap s a) \<Longrightarrow>
        \<forall>a \<in> set pws. 1 \<le> refCount (heap sx a) \<and> refCount (heap sx a) \<le> 2 ^ 63
                 \<and> pw_p (heap sx a) \<noteq> None"
    using refs parts by (auto simp: nil_part_def)
  have r1: "r1 = Return None"
  proof (cases "dst = []")
    case True
    have "fst (installMerged pws big None sw) = Return ()"
      by (rule installMerged_ok[OF d _ _ refs']) (use reg fw in simp_all)
    then show ?thesis using i True by (simp add: mergeParts_install_empty prod_eq_iff)
  next
    case False
    define sn where "sn = snd (newPartWrapper newP None (emit (OpenFilePart dst) sw))"
    have o: "openFilePart en dst (fs sw) = Some newP" using opened False fsw by simp
    have "\<forall>a \<in> set pws. heap sn a = heap s a"
      using alloc fw by (auto simp: sn_def)
    then have "fst (installMerged pws big (Some (heap_next sw)) sn) = Return ()"
      by (intro installMerged_ok[OF d _ _ refs']) (use reg fw in \<open>simp_all add: sn_def\<close>)
    then show ?thesis using i False o by (simp add: mergeParts_install_nonempty prod_eq_iff sn_def)
  qed
  have i': "mergeParts_install en pws big dst sw = (Return None, s1)" using i r1 by simp
  note di = mergeParts_install_done[OF i']
  note fi = mergeParts_install_frame[OF i']
  obtain evi where evi: "trace s1 = trace sw @ (if dst = [] then [] else [OpenFilePart dst]) @ evi"
      "\<forall>e \<in> set evi. is_release e"
    using mergeParts_install_trace[of en pws big dst sw] i by auto
  have same_flags: "\<forall>a \<in> set pws. isInMerge (heap s1 a)"
  proof
    fix a assume a: "a \<in> set pws"
    show "isInMerge (heap s1 a)"
    proof (cases "dst = []")
      case True
      obtain r0 s0 where im: "installMerged pws big None sw = (r0, s0)"
        by (cases "installMerged pws big None sw")
      then have "s1 = s0" using i True by (simp add: mergeParts_install_empty)
      then show ?thesis using installMerged_frame[OF im] flags fw a by simp
    next
      case False
      define sn where "sn = snd (newPartWrapper newP None (emit (OpenFilePart dst) sw))"
      have o: "openFilePart en dst (fs sw) = Some newP" using opened False fsw by simp
      obtain r0 s0 where im: "installMerged pws big (Some (heap_next sw)) sn = (r0, s0)"
        by (cases "installMerged pws big (Some (heap_next sw)) sn")
      then have "s1 = s0" using i False o by (simp add: mergeParts_install_nonempty sn_def)
      moreover have "isInMerge (heap sn a)" using alloc flags fw a by (auto simp: sn_def)
      ultimately show ?thesis using installMerged_frame[OF im] by simp
    qed
  qed
  then have c: "fst (clearInMerge pws s1) = Return ()"
    using clearInMerge_ok[OF d] by blast
  define s' where "s' = snd (clearInMerge pws s1)"
  have c': "clearInMerge pws s1 = (Return (), s')"
    using c by (simp add: s'_def prod_eq_iff)
  have res: "mergeParts en pws stopCh s = (Return None, s')"
    using ne body r1 c' by (simp add: mergeParts_def)
  have cnt: "\<forall>a \<in> set pws. count_list pws a = 1"
    using d by (simp add: count_list_distinct)
  have rc: "\<forall>a \<in> set pws. refCount (heap s' a) = refCount (heap s a) - 1"
    using clearInMerge_heap(1)[of pws s1] di fw cnt alloc by (auto simp: s'_def)
  have cl: "\<forall>a \<in> set pws. \<not> isInMerge (heap s' a)"
    using clearInMerge_cleared[of pws s1] c by (simp add: s'_def)
  have tr: "trace s' = trace s
                  @ [InitWriter (tmpPartPath_of s pws) (isBigPart s pws)
                       (getCompressLevelForRowsCount (outRowsCount s pws)),
                     WriteFile (txnPath_of s pws) (txnData (heap s) pws (tmpPartPath_of s pws) dst)]
                  @ (if dst = [] then [] else [OpenFilePart dst])
                  @ evi"
    using tw evi(1) by (simp add: s'_def)
  have l: "heap_next s' = (if dst = [] then heap_next s else Suc (heap_next s))"
    "smallParts s' = filter (\<lambda>pw. pw \<notin> set pws) (smallParts s)
               @ (if dst = [] \<or> isBigPart s pws then [] else [heap_next s])"
    "bigParts s' = filter (\<lambda>pw. pw \<notin> set pws) (bigParts s)
               @ (if dst = [] \<or> \<not> isBigPart s pws then [] else [heap_next s])"
    using di fw by (simp_all add: s'_def big_def)
  have "\<exists>evs. trace s' = trace s
                  @ [InitWriter (tmpPartPath_of s pws) (isBigPart s pws)
                       (getCompressLevelForRowsCount (outRowsCount s pws)),
                     WriteFile (txnPath_of s pws) (txnData (heap s) pws (tmpPartPath_of s pws) dst)]
                  @ (if dst = [] then [] else [OpenFilePart dst])
                  @ evs
                \<and> (\<forall>e \<in> set evs. is_release e)"
    using tr evi(2) by (intro exI conjI)
  with res l rc cl show ?thesis
    by (intro exI[of _ s'] conjI ballI) simp_all
qed

section \<open>Evaluating a merge of two parts\<close>

lemma hex1: "hex16 1 = ''0000000000000001''"
  by code_simp

lemma clean_big: "filepath_Clean ''/big/2023_07'' = ''/big/2023_07''"
  by code_simp

lemma clean_small: "filepath_Clean ''/small/2023_07'' = ''/small/2023_07''"
  by code_simp

lemma big_two: "isBigPart state_two [2, 3]"
  by (simp add: isBigPart_def outRowsCount_def hdr_of_def state_two_def part_a_def part_b_def maxRowsPerSmallPart_def)

lemma state_two_simps [simp]:
  "smallPartsPath state_two = ''/small/2023_07''"
  "bigPartsPath state_two = ''/big/2023_07''"
  "mergeIdx state_two = 0"
  "smallParts state_two = [2, 3]"
  "bigParts state_two = []"
  "heap_next state_two = 4"
  "trace state_two = []"
  "heap state_two a = \<lparr>pw_p = Some (if a = 2 then part_a else part_b), pw_mp = None,
                          refCount = 1, isInMerge = True\<rparr>"
  "fs state_two = [(''/small/2023_07'', []), (''/small/2023_07/tmp'', []), (''/small/2023_07/txn'', []),
            (''/big/2023_07'', []), (''/big/2023_07/tmp'', []), (''/big/2023_07/txn'', []),
            (''/small/2023_07/a'', []), (''/small/2023_07/b'', [])]"
  by (simp_all add: state_two_def state0_def)

lemma tmp_two: "tmpPartPath_of state_two [2, 3] = ''/big/2023_07/tmp/0000000000000001''"
  by (simp add: tmpPartPath_of_def ptPath_of_def big_two dstDir_def clean_big hex1)

lemma txn_two: "txnPath_of state_two [2, 3] = ''/big/2023_07/txn/0000000000000001''"
  by (simp add: txnPath_of_def ptPath_of_def big_two dstDir_def clean_big hex1)

lemma run_two:
  "runTransaction mem_env ''/small/2023_07'' ''/big/2023_07'' ''/big/2023_07/txn/0000000000000001'' fs_before
     = (None, fs_after)"
  by code_simp

lemma readers_two:
  "openReaders mem_env state_two [2, 3] = Return (Inr [FromFilePart ''/small/2023_07/a'', FromFilePart ''/small/2023_07/b''])"
  by (simp add: mem_env_def mem_exists_def part_a_def part_b_def)

lemma data_two:
  "txnData (heap state_two) [2, 3] ''/big/2023_07/tmp/0000000000000001'' ''/big/2023_07/0000000000000001'' = txn_text"
  by (simp add: txnData_def txn_text_def part_a_def part_b_def)

lemma run_two_deleted:
  "runTransaction mem_env_deleted ''/small/2023_07'' ''/big/2023_07'' ''/big/2023_07/txn/0000000000000001''
     fs_before_deleted = (None, fs state0)"
  by code_simp

lemma env_deleted_simps [simp]:
  "bsr_InitFromFilePart mem_env_deleted = mem_exists"
  "bsw_InitFromFilePart mem_env_deleted = (\<lambda>q nocache level f. mem_WriteFile q [] f)"
  "fs_WriteFile mem_env_deleted = mem_WriteFile"
  "mergeBlockStreams mem_env_deleted = (\<lambda>q bsrs stopCh f.
         ((None, \<lparr>RowsCount = 0, MinTimestamp = 0, MaxTimestamp = 0\<rparr>, 0, 400000000), f))"
  by (simp_all add: mem_env_deleted_def mem_env_def)

lemma env_simps [simp]:
  "bsr_InitFromFilePart mem_env = mem_exists"
  "bsw_InitFromFilePart mem_env = (\<lambda>q nocache level f. mem_WriteFile q [] f)"
  "fs_WriteFile mem_env = mem_WriteFile"
  "mergeBlockStreams mem_env = (\<lambda>q bsrs stopCh f.
         ((None, \<lparr>RowsCount = word_of_nat (length bsrs), MinTimestamp = 5, MaxTimestamp = 7\<rparr>,
           word_of_nat (length bsrs), 0), f))"
  "openFilePart mem_env = (\<lambda>q f. if mem_exists q f
                            then Some \<lparr>part_ph = \<lparr>RowsCount = 1, MinTimestamp = 5, MaxTimestamp = 7\<rparr>,
                                       part_path = q\<rparr>
                            else None)"
  "ph_Path mem_env = (\<lambda>ph dir idx. dir @ ''/'' @ hex16 idx)"
  by (simp_all add: mem_env_def)

lemma merge_two:
  "\<exists>s'. mergeParts mem_env [2, 3] True state_two = (Return None, s') \<and> heap_next s' = 5"
proof -
  have readers: "openReaders mem_env state_two [2, 3]
      = Return (Inr [FromFilePart ''/small/2023_07/a'', FromFilePart ''/small/2023_07/b''])"
    by (rule readers_two)
  have parts: "\<not> nil_part state_two [2, 3]"
    by (simp add: nil_part_def)
  have writer: "bsw_InitFromFilePart mem_env (tmpPartPath_of state_two [2, 3]) (isBigPart state_two [2, 3])
           (getCompressLevelForRowsCount (outRowsCount state_two [2, 3])) (fs state_two)
         = (True, fs state_two @ [(''/big/2023_07/tmp/0000000000000001'', [])])"
    by (simp add: tmp_two mem_WriteFile_def mem_exists_def)
  have merged: "mergeBlockStreams mem_env (tmpPartPath_of state_two [2, 3])
          [FromFilePart ''/small/2023_07/a'', FromFilePart ''/small/2023_07/b''] True
          (fs state_two @ [(''/big/2023_07/tmp/0000000000000001'', [])])
        = ((None, \<lparr>RowsCount = 2, MinTimestamp = 5, MaxTimestamp = 7\<rparr>, 2, 0),
           fs state_two @ [(''/big/2023_07/tmp/0000000000000001'', [])])"
    by simp
  have dst: "''/big/2023_07/0000000000000001''
      = dstPartPath_of mem_env \<lparr>RowsCount = 2, MinTimestamp = 5, MaxTimestamp = 7\<rparr>
          (ptPath_of state_two [2, 3]) (mergeIdx state_two + 1)"
    by (simp add: dstPartPath_of_def ptPath_of_def big_two dstDir_def clean_big hex1)
  have written: "fs_WriteFile mem_env (txnPath_of state_two [2, 3])
           (txnData (heap state_two) [2, 3] (tmpPartPath_of state_two [2, 3]) ''/big/2023_07/0000000000000001'')
           (fs state_two @ [(''/big/2023_07/tmp/0000000000000001'', [])]) = (True, fs_before)"
    unfolding tmp_two data_two
    by (simp add: txn_two mem_WriteFile_def mem_exists_def fs_before_def)
  have txn: "runTransaction mem_env (smallPartsPath state_two) (bigPartsPath state_two)
        (txnPath_of state_two [2, 3]) fs_before = (None, fs_after)"
    by (simp add: txn_two run_two)
  have opened: "''/big/2023_07/0000000000000001'' \<noteq> [] \<longrightarrow>
      openFilePart mem_env ''/big/2023_07/0000000000000001'' fs_after
        = Some \<lparr>part_ph = \<lparr>RowsCount = 1, MinTimestamp = 5, MaxTimestamp = 7\<rparr>,
                part_path = ''/big/2023_07/0000000000000001''\<rparr>"
    by (simp add: mem_exists_def fs_after_def)
  have d: "distinct [2, 3::nat]" by simp
  have reg: "distinct (smallParts state_two @ bigParts state_two)"
    "set [2, 3] \<subseteq> set (smallParts state_two @ bigParts state_two)"
    by simp_all
  have alloc: "\<forall>a \<in> set [2, 3]. a < heap_next state_two" by simp
  have flags: "\<forall>a \<in> set [2, 3]. isInMerge (heap state_two a)" by simp
  have refs: "\<forall>a \<in> set [2, 3]. 1 \<le> refCount (heap state_two a) \<and> refCount (heap state_two a) \<le> 2 ^ 63"
    by simp
  from mergeParts_success [OF _ readers parts writer merged dst written txn opened d reg alloc flags refs]
  show ?thesis by auto
qed

section \<open>Claim C4: the tier of a merged part\<close>

text \<open>Claim C4. For the input handles \<^term>\<open>pws\<close> of \<^const>\<open>mergeParts\<close>, the value
  \<^const>\<open>outRowsCount\<close> is the sum of the row counts in the headers of the inputs (the 64-bit sum,
  equal to the sum over the naturals when that is below \<open>2^64\<close>); the output is big if and only if
  this sum exceeds 300 million; the working directory is the cleaned big path when the output is big
  and the cleaned small path otherwise, whatever lists the inputs sit in; every writer opened and
  every transaction file written during the call lies under that directory and the writer's nocache
  hint equals the decision; when the call returns without error the new handle, if one was
  allocated, is appended to the big list exactly when the output is big and to the small list
  otherwise; in particular inputs taken from the small list whose sum exceeds 300 million yield a
  handle in the big list.\<close>

theorem mergeParts_tier_by_output_size:
  assumes "mergeParts en pws stopCh s = (r, s')"
  shows "outRowsCount s pws = sum_list (map (\<lambda>a. RowsCount (hdr_of s a)) pws)
    \<and> (sum_list (map (\<lambda>a. unat (RowsCount (hdr_of s a))) pws) < 2 ^ 64 \<longrightarrow>
         unat (outRowsCount s pws) = sum_list (map (\<lambda>a. unat (RowsCount (hdr_of s a))) pws))
    \<and> (isBigPart s pws \<longleftrightarrow> 300000000 < outRowsCount s pws)
    \<and> ptPath_of s pws = filepath_Clean (if isBigPart s pws then bigPartsPath s else smallPartsPath s)
    \<and> (\<exists>evs. trace s' = trace s @ evs
          \<and> (\<forall>q nocache level. InitWriter q nocache level \<in> set evs \<longrightarrow>
                q = ptPath_of s pws @ ''/tmp/'' @ hex16 (mergeIdx s + 1)
                \<and> nocache = isBigPart s pws)
          \<and> (\<forall>q d. WriteFile q d \<in> set evs \<longrightarrow>
                q = ptPath_of s pws @ ''/txn/'' @ hex16 (mergeIdx s + 1)))
    \<and> (r = Return None \<and> pws \<noteq> [] \<longrightarrow>
          smallParts s' = filter (\<lambda>pw. pw \<notin> set pws) (smallParts s)
            @ (if heap_next s' = heap_next s \<or> isBigPart s pws then [] else [heap_next s])
          \<and> bigParts s' = filter (\<lambda>pw. pw \<notin> set pws) (bigParts s)
            @ (if heap_next s' = heap_next s \<or> \<not> isBigPart s pws then [] else [heap_next s]))
    \<and> (r = Return None \<and> pws \<noteq> [] \<and> set pws \<subseteq> set (smallParts s)
           \<and> isBigPart s pws \<and> heap_next s' \<noteq> heap_next s \<longrightarrow>
          bigParts s' = bigParts s @ [heap_next s]
          \<and> smallParts s' = filter (\<lambda>pw. pw \<notin> set pws) (smallParts s))"
proof -
  have sum: "outRowsCount s pws = sum_list (map (\<lambda>a. RowsCount (hdr_of s a)) pws)"
    by (rule outRowsCount_sum)
  have nat_sum: "sum_list (map (\<lambda>a. unat (RowsCount (hdr_of s a))) pws) < 2 ^ 64 \<longrightarrow>
         unat (outRowsCount s pws) = sum_list (map (\<lambda>a. unat (RowsCount (hdr_of s a))) pws)"
    using unat_sum_list_no_overflow[of "map (\<lambda>a. RowsCount (hdr_of s a)) pws"]
    by (simp add: sum comp_def)
  have big: "isBigPart s pws \<longleftrightarrow> 300000000 < outRowsCount s pws"
    by (simp add: isBigPart_def maxRowsPerSmallPart_def)
  have dir: "ptPath_of s pws = filepath_Clean (if isBigPart s pws then bigPartsPath s else smallPartsPath s)"
    by (simp add: ptPath_of_def dstDir_def)
  define okev1 where "okev1 e \<longleftrightarrow>
           (\<forall>q nocache level. e = InitWriter q nocache level \<longrightarrow>
                q = ptPath_of s pws @ ''/tmp/'' @ hex16 (mergeIdx s + 1)
                \<and> nocache = isBigPart s pws)
          \<and> (\<forall>q d. e = WriteFile q d \<longrightarrow>
                q = ptPath_of s pws @ ''/txn/'' @ hex16 (mergeIdx s + 1))" for e
  define okev where "okev evs \<longleftrightarrow> (\<forall>e \<in> set evs. okev1 e)" for evs
  have rel_ok: "\<And>evs. \<forall>e \<in> set evs. is_release e \<Longrightarrow> okev evs"
    by (fastforce simp: okev_def okev1_def)
  have app_ok: "\<And>xs ys. okev xs \<Longrightarrow> okev ys \<Longrightarrow> okev (xs @ ys)"
    by (auto simp: okev_def)
  have rest: "(\<exists>evs. trace s' = trace s @ evs \<and> okev evs)
    \<and> (r = Return None \<and> pws \<noteq> [] \<longrightarrow>
          smallParts s' = filter (\<lambda>pw. pw \<notin> set pws) (smallParts s)
            @ (if heap_next s' = heap_next s \<or> isBigPart s pws then [] else [heap_next s])
          \<and> bigParts s' = filter (\<lambda>pw. pw \<notin> set pws) (bigParts s)
            @ (if heap_next s' = heap_next s \<or> \<not> isBigPart s pws then [] else [heap_next s]))
    \<and> (r = Return None \<and> pws \<noteq> [] \<and> set pws \<subseteq> set (smallParts s)
           \<and> isBigPart s pws \<and> heap_next s' \<noteq> heap_next s \<longrightarrow>
          bigParts s' = bigParts s @ [heap_next s]
          \<and> smallParts s' = filter (\<lambda>pw. pw \<notin> set pws) (smallParts s))"
  proof (cases "pws = []")
    case True
    then have "s' = s" "r = Return (Some errNothingToMerge)"
      using assms by (auto simp: mergeParts_def)
    moreover have "okev []" by (simp add: okev_def)
    ultimately show ?thesis using True by simp
  next
    case False
    obtain w sw where w: "mergeParts_write en pws stopCh s = (w, sw)"
      by (cases "mergeParts_write en pws stopCh s")
    obtain r1 s1 where b: "mergeParts_body en pws stopCh s = (r1, s1)"
      by (cases "mergeParts_body en pws stopCh s")
    obtain r2 s2 where c: "clearInMerge pws s1 = (r2, s2)"
      by (cases "clearInMerge pws s1")
    have "(r, s') = (case r2 of Panic m \<Rightarrow> (Panic m, s2) | Return u \<Rightarrow> (r1, s2))"
      using assms False b c by (simp add: mergeParts_def)
    then have e2: "s' = s2" "r = (case r2 of Panic m \<Rightarrow> Panic m | Return u \<Rightarrow> r1)"
      by (cases r2; simp)+
    have u4: "(r1, s1) = (case w of Inl r0 \<Rightarrow> (r0, sw)
                 | Inr bd \<Rightarrow> mergeParts_install en pws (fst bd) (snd bd) sw)"
      using b w by (auto simp: mergeParts_body_def split: sum.splits prod.splits)
    note u = w c[folded e2(1)] e2(2) u4
    note fw = mergeParts_write_frame[OF u(1)]
    note ew = mergeParts_write_events[OF u(1)]
    have s'1: "trace s' = trace s1" "smallParts s' = smallParts s1" "bigParts s' = bigParts s1"
      "heap_next s' = heap_next s1"
      using u(2) clearInMerge_lists[of pws s1] by simp_all
    obtain evw where evw: "trace sw = trace s @ evw" "okev evw"
      using ew by (auto simp: okev_def okev1_def tmpPartPath_of_def txnPath_of_def)
    show ?thesis
    proof (cases w)
      case (Inl r0)
      then have e: "s1 = sw" "r1 = r0" using u(4) by simp_all
      have "r0 \<noteq> Return None" using ew Inl by simp
      then have "r \<noteq> Return None" using u(3) e by (cases r2) auto
      then show ?thesis using evw e s'1 by auto
    next
      case (Inr bd)
      obtain big dst where bd: "bd = (big, dst)" by (cases bd)
      have bg: "big = isBigPart s pws" using fw Inr bd by simp
      have i: "mergeParts_install en pws big dst sw = (r1, s1)"
        using u(4) Inr bd by simp
      obtain evi where evi: "trace s1 = trace sw @ (if dst = [] then [] else [OpenFilePart dst]) @ evi"
          "\<forall>e \<in> set evi. is_release e"
        using mergeParts_install_trace[of en pws big dst sw] i by auto
      have "okev ((if dst = [] then [] else [OpenFilePart dst]) @ evi)"
        using rel_ok[OF evi(2)] by (auto simp: okev_def okev1_def)
      then have "okev (evw @ (if dst = [] then [] else [OpenFilePart dst]) @ evi)"
        using evw(2) by (rule app_ok[rotated])
      moreover have "trace s' = trace s @ (evw @ (if dst = [] then [] else [OpenFilePart dst]) @ evi)"
        using evw(1) evi(1) s'1(1) by simp
      ultimately have ev: "\<exists>evs. trace s' = trace s @ evs \<and> okev evs"
        by (intro exI conjI)
      have lists: "r = Return None \<longrightarrow>
          smallParts s' = filter (\<lambda>pw. pw \<notin> set pws) (smallParts s)
            @ (if heap_next s' = heap_next s \<or> isBigPart s pws then [] else [heap_next s])
          \<and> bigParts s' = filter (\<lambda>pw. pw \<notin> set pws) (bigParts s)
            @ (if heap_next s' = heap_next s \<or> \<not> isBigPart s pws then [] else [heap_next s])
          \<and> distinct pws
          \<and> length (filter (\<lambda>pw. pw \<in> set pws) (smallParts s))
              + length (filter (\<lambda>pw. pw \<in> set pws) (bigParts s)) = length pws"
      proof
        assume "r = Return None"
        then have "r1 = Return None" using u(3) by (cases r2) auto
        then have i': "mergeParts_install en pws big dst sw = (Return None, s1)" using i by simp
        show "smallParts s' = filter (\<lambda>pw. pw \<notin> set pws) (smallParts s)
            @ (if heap_next s' = heap_next s \<or> isBigPart s pws then [] else [heap_next s])
          \<and> bigParts s' = filter (\<lambda>pw. pw \<notin> set pws) (bigParts s)
            @ (if heap_next s' = heap_next s \<or> \<not> isBigPart s pws then [] else [heap_next s])
          \<and> distinct pws
          \<and> length (filter (\<lambda>pw. pw \<in> set pws) (smallParts s))
              + length (filter (\<lambda>pw. pw \<in> set pws) (bigParts s)) = length pws"
          using mergeParts_install_done[OF i'] mergeParts_install_counts[OF i'] fw s'1 bg
          by (cases "dst = []") simp_all
      qed
      have promo: "r = Return None \<and> pws \<noteq> [] \<and> set pws \<subseteq> set (smallParts s)
           \<and> isBigPart s pws \<and> heap_next s' \<noteq> heap_next s \<longrightarrow>
          bigParts s' = bigParts s @ [heap_next s]
          \<and> smallParts s' = filter (\<lambda>pw. pw \<notin> set pws) (smallParts s)"
      proof
        assume h: "r = Return None \<and> pws \<noteq> [] \<and> set pws \<subseteq> set (smallParts s)
           \<and> isBigPart s pws \<and> heap_next s' \<noteq> heap_next s"
        then have l: "smallParts s' = filter (\<lambda>pw. pw \<notin> set pws) (smallParts s)"
          "bigParts s' = filter (\<lambda>pw. pw \<notin> set pws) (bigParts s) @ [heap_next s]"
          "distinct pws"
          "length (filter (\<lambda>pw. pw \<in> set pws) (smallParts s))
              + length (filter (\<lambda>pw. pw \<in> set pws) (bigParts s)) = length pws"
          using lists by simp_all
        have "filter (\<lambda>pw. pw \<notin> set pws) (bigParts s) = bigParts s"
          using none_removed[OF l(3) _ l(4)] h by simp
        then show "bigParts s' = bigParts s @ [heap_next s]
          \<and> smallParts s' = filter (\<lambda>pw. pw \<notin> set pws) (smallParts s)"
          using l by simp
      qed
      have lists': "r = Return None \<and> pws \<noteq> [] \<longrightarrow>
          smallParts s' = filter (\<lambda>pw. pw \<notin> set pws) (smallParts s)
            @ (if heap_next s' = heap_next s \<or> isBigPart s pws then [] else [heap_next s])
          \<and> bigParts s' = filter (\<lambda>pw. pw \<notin> set pws) (bigParts s)
            @ (if heap_next s' = heap_next s \<or> \<not> isBigPart s pws then [] else [heap_next s])"
        using lists by simp
      show ?thesis using ev lists' promo by (intro conjI)
    qed
  qed
  have conv: "\<And>evs. okev evs \<Longrightarrow>
          (\<forall>q nocache level. InitWriter q nocache level \<in> set evs \<longrightarrow>
                q = ptPath_of s pws @ ''/tmp/'' @ hex16 (mergeIdx s + 1)
                \<and> nocache = isBigPart s pws)
          \<and> (\<forall>q d. WriteFile q d \<in> set evs \<longrightarrow>
                q = ptPath_of s pws @ ''/txn/'' @ hex16 (mergeIdx s + 1))"
    unfolding okev_def okev1_def by blast
  from rest obtain evs where evs: "trace s' = trace s @ evs" "okev evs" by blast
  have "\<exists>evs. trace s' = trace s @ evs
          \<and> (\<forall>q nocache level. InitWriter q nocache level \<in> set evs \<longrightarrow>
                q = ptPath_of s pws @ ''/tmp/'' @ hex16 (mergeIdx s + 1)
                \<and> nocache = isBigPart s pws)
          \<and> (\<forall>q d. WriteFile q d \<in> set evs \<longrightarrow>
                q = ptPath_of s pws @ ''/txn/'' @ hex16 (mergeIdx s + 1))"
    using evs(1) conv[OF evs(2)] by blast
  moreover note sum nat_sum big dir
  moreover have "r = Return None \<and> pws \<noteq> [] \<longrightarrow>
          smallParts s' = filter (\<lambda>pw. pw \<notin> set pws) (smallParts s)
            @ (if heap_next s' = heap_next s \<or> isBigPart s pws then [] else [heap_next s])
          \<and> bigParts s' = filter (\<lambda>pw. pw \<notin> set pws) (bigParts s)
            @ (if heap_next s' = heap_next s \<or> \<not> isBigPart s pws then [] else [heap_next s])"
    using rest by (elim conjE)
  moreover have "r = Return None \<and> pws \<noteq> [] \<and> set pws \<subseteq> set (smallParts s)
           \<and> isBigPart s pws \<and> heap_next s' \<noteq> heap_next s \<longrightarrow>
          bigParts s' = bigParts s @ [heap_next s]
          \<and> smallParts s' = filter (\<lambda>pw. pw \<notin> set pws) (smallParts s)"
    using rest by (elim conjE)
  ultimately show ?thesis by (intro conjI)
qed

theorem mergeParts_tier_by_output_size_witness:
  "unat (outRowsCount state_two [2, 3]) = 400000000
   \<and> isBigPart state_two [2, 3]
   \<and> set [2, 3] \<subseteq> set (smallParts state_two)
   \<and> (\<exists>s'. mergeParts mem_env [2, 3] True state_two = (Return None, s')
         \<and> heap_next s' \<noteq> heap_next state_two
         \<and> bigParts s' = [4] \<and> smallParts s' = []
         \<and> (\<forall>q nocache level. InitWriter q nocache level \<in> set (trace s') \<longrightarrow>
                q = ''/big/2023_07/tmp/0000000000000001'' \<and> nocache))"
proof -
  obtain s' where s': "mergeParts mem_env [2, 3] True state_two = (Return None, s')"
      and n: "heap_next s' = 5"
    using merge_two by blast
  note t = mergeParts_tier_by_output_size [OF s']
  have rows: "sum_list (map (\<lambda>a. unat (RowsCount (hdr_of state_two a))) [2, 3]) = 400000000"
    by (simp add: hdr_of_def part_a_def part_b_def)
  have imp: "sum_list (map (\<lambda>a. unat (RowsCount (hdr_of state_two a))) [2, 3]) < 2 ^ 64 \<longrightarrow>
         unat (outRowsCount state_two [2, 3])
           = sum_list (map (\<lambda>a. unat (RowsCount (hdr_of state_two a))) [2, 3])"
    using t by (elim conjE)
  have u: "unat (outRowsCount state_two [2, 3]) = 400000000"
    using imp unfolding rows by simp
  have promo: "(Return None :: error option outcome) = Return None \<and> [2, 3::nat] \<noteq> []
           \<and> set [2, 3] \<subseteq> set (smallParts state_two)
           \<and> isBigPart state_two [2, 3] \<and> heap_next s' \<noteq> heap_next state_two \<longrightarrow>
          bigParts s' = bigParts state_two @ [heap_next state_two]
          \<and> smallParts s' = filter (\<lambda>pw. pw \<notin> set [2, 3]) (smallParts state_two)"
    using t by (elim conjE)
  have lists: "bigParts s' = [4] \<and> smallParts s' = []"
    using promo n big_two by simp
  have tp: "tmpPartPath_of state_two [2, 3] = ptPath_of state_two [2, 3] @ ''/tmp/'' @ hex16 (mergeIdx state_two + 1)"
    by (simp add: tmpPartPath_of_def)
  from t obtain evs where evs: "trace s' = trace state_two @ evs"
     "\<forall>q nocache level. InitWriter q nocache level \<in> set evs \<longrightarrow>
                q = ptPath_of state_two [2, 3] @ ''/tmp/'' @ hex16 (mergeIdx state_two + 1)
                \<and> nocache = isBigPart state_two [2, 3]"
    by blast
  have ev: "\<forall>q nocache level. InitWriter q nocache level \<in> set (trace s') \<longrightarrow>
                q = ''/big/2023_07/tmp/0000000000000001'' \<and> nocache"
    using evs tp tmp_two big_two by auto
  have hn: "heap_next s' \<noteq> heap_next state_two"
    using n by simp
  have sub: "set [2, 3] \<subseteq> set (smallParts state_two)"
    by simp
  have "mergeParts mem_env [2, 3] True state_two = (Return None, s')
         \<and> heap_next s' \<noteq> heap_next state_two
         \<and> bigParts s' = [4] \<and> smallParts s' = []
         \<and> (\<forall>q nocache level. InitWriter q nocache level \<in> set (trace s') \<longrightarrow>
                q = ''/big/2023_07/tmp/0000000000000001'' \<and> nocache)"
    using s' hn lists [THEN conjunct1] lists [THEN conjunct2] ev by (intro conjI)
  from exI [of "\<lambda>s'. mergeParts mem_env [2, 3] True state_two = (Return None, s')
         \<and> heap_next s' \<noteq> heap_next state_two
         \<and> bigParts s' = [4] \<and> smallParts s' = []
         \<and> (\<forall>q nocache level. InitWriter q nocache level \<in> set (trace s') \<longrightarrow>
                q = ''/big/2023_07/tmp/0000000000000001'' \<and> nocache)" s', OF this]
  have ex: "\<exists>s'. mergeParts mem_env [2, 3] True state_two = (Return None, s')
         \<and> heap_next s' \<noteq> heap_next state_two
         \<and> bigParts s' = [4] \<and> smallParts s' = []
         \<and> (\<forall>q nocache level. InitWriter q nocache level \<in> set (trace s') \<longrightarrow>
                q = ''/big/2023_07/tmp/0000000000000001'' \<and> nocache)" .
  from u big_two sub ex show ?thesis by (intro conjI)
qed

section \<open>Claim C5: a merge that leaves no rows\<close>

text \<open>Claim C5. When the merged header has a row count of 0 and every step of the merge succeeds,
  the destination path is empty and the last line of the transaction file is the temporary path
  followed by an arrow and nothing; \<^const>\<open>mergeParts\<close> returns without error; apart from the
  writer and the transaction file the only events are releases of the inputs, so no file part is
  opened; no handle is allocated; the inputs are filtered out of both lists, nothing is appended to
  either, each input loses one reference and its merge flag.\<close>

theorem mergeParts_without_output:
  assumes ne: "pws \<noteq> []"
    and readers: "openReaders en s pws = Return (Inr bsrs)"
    and parts: "\<not> nil_part s pws"
    and writer: "bsw_InitFromFilePart en (tmpPartPath_of s pws) (isBigPart s pws)
           (getCompressLevelForRowsCount (outRowsCount s pws)) (fs s) = (True, f1)"
    and merged: "mergeBlockStreams en (tmpPartPath_of s pws) bsrs stopCh f1 = ((None, ph, nmerged, ndeleted), f2)"
    and zero: "RowsCount ph = 0"
    and written: "fs_WriteFile en (txnPath_of s pws)
           (txnData (heap s) pws (tmpPartPath_of s pws) []) f2 = (True, f3)"
    and txn: "runTransaction en (smallPartsPath s) (bigPartsPath s) (txnPath_of s pws) f3 = (None, f4)"
    and d: "distinct pws"
    and reg: "distinct (smallParts s @ bigParts s)" "set pws \<subseteq> set (smallParts s @ bigParts s)"
    and alloc: "\<forall>a \<in> set pws. a < heap_next s"
    and flags: "\<forall>a \<in> set pws. isInMerge (heap s a)"
    and refs: "\<forall>a \<in> set pws. 1 \<le> refCount (heap s a) \<and> refCount (heap s a) \<le> 2 ^ 63"
  shows "dstPartPath_of en ph (ptPath_of s pws) (mergeIdx s + 1) = []
    \<and> (\<exists>s'. mergeParts en pws stopCh s = (Return None, s')
          \<and> (\<exists>evs. trace s' = trace s
                  @ [InitWriter (tmpPartPath_of s pws) (isBigPart s pws)
                       (getCompressLevelForRowsCount (outRowsCount s pws)),
                     WriteFile (txnPath_of s pws) (txnData (heap s) pws (tmpPartPath_of s pws) [])]
                  @ evs
                \<and> (\<forall>e \<in> set evs. is_release e))
          \<and> heap_next s' = heap_next s
          \<and> smallParts s' = filter (\<lambda>pw. pw \<notin> set pws) (smallParts s)
          \<and> bigParts s' = filter (\<lambda>pw. pw \<notin> set pws) (bigParts s)
          \<and> (\<forall>a \<in> set pws. refCount (heap s' a) = refCount (heap s a) - 1
                              \<and> \<not> isInMerge (heap s' a)))
    \<and> (\<exists>lines. txnData (heap s) pws (tmpPartPath_of s pws) []
                  = lines @ tmpPartPath_of s pws @ '' -> '' @ [CHR 0x0A])"
proof -
  have dst: "[] = dstPartPath_of en ph (ptPath_of s pws) (mergeIdx s + 1)"
    using zero by (simp add: dstPartPath_of_def)
  have line: "\<exists>lines. txnData (heap s) pws (tmpPartPath_of s pws) []
                  = lines @ tmpPartPath_of s pws @ '' -> '' @ [CHR 0x0A]"
    by (simp add: txnData_def)
  from mergeParts_success[OF ne readers parts writer merged dst written txn _ d reg alloc flags refs]
  have "\<exists>s'. mergeParts en pws stopCh s = (Return None, s')
          \<and> (\<exists>evs. trace s' = trace s
                  @ [InitWriter (tmpPartPath_of s pws) (isBigPart s pws)
                       (getCompressLevelForRowsCount (outRowsCount s pws)),
                     WriteFile (txnPath_of s pws) (txnData (heap s) pws (tmpPartPath_of s pws) [])]
                  @ evs
                \<and> (\<forall>e \<in> set evs. is_release e))
          \<and> heap_next s' = heap_next s
          \<and> smallParts s' = filter (\<lambda>pw. pw \<notin> set pws) (smallParts s)
          \<and> bigParts s' = filter (\<lambda>pw. pw \<notin> set pws) (bigParts s)
          \<and> (\<forall>a \<in> set pws. refCount (heap s' a) = refCount (heap s a) - 1
                              \<and> \<not> isInMerge (heap s' a))"
    by simp
  with dst[symmetric] line show ?thesis by (intro conjI)
qed

theorem mergeParts_without_output_witness:
  "openReaders mem_env_deleted state_two [2, 3]
      = Return (Inr [FromFilePart ''/small/2023_07/a'', FromFilePart ''/small/2023_07/b''])
   \<and> RowsCount (fst (snd (fst (mergeBlockStreams mem_env_deleted ''/big/2023_07/tmp/0000000000000001''
          [FromFilePart ''/small/2023_07/a'', FromFilePart ''/small/2023_07/b''] True
          (fs state_two @ [(''/big/2023_07/tmp/0000000000000001'', [])]))))) = 0
   \<and> runTransaction mem_env_deleted (smallPartsPath state_two) (bigPartsPath state_two)
        (txnPath_of state_two [2, 3]) fs_before_deleted = (None, fs state0)
   \<and> (\<exists>s'. mergeParts mem_env_deleted [2, 3] True state_two = (Return None, s')
          \<and> heap_next s' = 4 \<and> smallParts s' = [] \<and> bigParts s' = []
          \<and> refCount (heap s' 2) = 0 \<and> refCount (heap s' 3) = 0)"
proof -
  have readers: "openReaders mem_env_deleted state_two [2, 3]
      = Return (Inr [FromFilePart ''/small/2023_07/a'', FromFilePart ''/small/2023_07/b''])"
    by (simp add: mem_exists_def part_a_def part_b_def)
  have parts: "\<not> nil_part state_two [2, 3]"
    by (simp add: nil_part_def)
  have writer: "bsw_InitFromFilePart mem_env_deleted (tmpPartPath_of state_two [2, 3]) (isBigPart state_two [2, 3])
           (getCompressLevelForRowsCount (outRowsCount state_two [2, 3])) (fs state_two)
         = (True, fs state_two @ [(''/big/2023_07/tmp/0000000000000001'', [])])"
    by (simp add: tmp_two mem_WriteFile_def mem_exists_def)
  have merged: "mergeBlockStreams mem_env_deleted (tmpPartPath_of state_two [2, 3])
          [FromFilePart ''/small/2023_07/a'', FromFilePart ''/small/2023_07/b''] True
          (fs state_two @ [(''/big/2023_07/tmp/0000000000000001'', [])])
        = ((None, \<lparr>RowsCount = 0, MinTimestamp = 0, MaxTimestamp = 0\<rparr>, 0, 400000000),
           fs state_two @ [(''/big/2023_07/tmp/0000000000000001'', [])])"
    by simp
  have zero: "RowsCount \<lparr>RowsCount = 0, MinTimestamp = 0, MaxTimestamp = 0\<rparr> = 0"
    by simp
  have data: "txnData (heap state_two) [2, 3] (tmpPartPath_of state_two [2, 3]) [] = txn_text_deleted"
    by (simp add: txnData_def txn_text_deleted_def part_a_def part_b_def tmp_two)
  have written: "fs_WriteFile mem_env_deleted (txnPath_of state_two [2, 3])
           (txnData (heap state_two) [2, 3] (tmpPartPath_of state_two [2, 3]) [])
           (fs state_two @ [(''/big/2023_07/tmp/0000000000000001'', [])]) = (True, fs_before_deleted)"
    by (simp add: data txn_two mem_WriteFile_def mem_exists_def fs_before_deleted_def)
  have txn: "runTransaction mem_env_deleted (smallPartsPath state_two) (bigPartsPath state_two)
        (txnPath_of state_two [2, 3]) fs_before_deleted = (None, fs state0)"
    by (simp add: txn_two run_two_deleted)
  have d: "distinct [2, 3::nat]" by simp
  have reg: "distinct (smallParts state_two @ bigParts state_two)"
    "set [2, 3] \<subseteq> set (smallParts state_two @ bigParts state_two)"
    by simp_all
  have alloc: "\<forall>a \<in> set [2, 3]. a < heap_next state_two" by simp
  have flags: "\<forall>a \<in> set [2, 3]. isInMerge (heap state_two a)" by simp
  have refs: "\<forall>a \<in> set [2, 3]. 1 \<le> refCount (heap state_two a) \<and> refCount (heap state_two a) \<le> 2 ^ 63"
    by simp
  from mergeParts_without_output [OF _ readers parts writer merged zero written txn d reg alloc flags refs]
  obtain s' where s': "mergeParts mem_env_deleted [2, 3] True state_two = (Return None, s')"
      "heap_next s' = heap_next state_two"
      "smallParts s' = filter (\<lambda>pw. pw \<notin> set [2, 3]) (smallParts state_two)"
      "bigParts s' = filter (\<lambda>pw. pw \<notin> set [2, 3]) (bigParts state_two)"
      "\<forall>a \<in> set [2, 3]. refCount (heap s' a) = refCount (heap state_two a) - 1"
    by auto
  have "mergeParts mem_env_deleted [2, 3] True state_two = (Return None, s')
          \<and> heap_next s' = 4 \<and> smallParts s' = [] \<and> bigParts s' = []
          \<and> refCount (heap s' 2) = 0 \<and> refCount (heap s' 3) = 0"
    using s' by simp
  then have ex: "\<exists>s'. mergeParts mem_env_deleted [2, 3] True state_two = (Return None, s')
          \<and> heap_next s' = 4 \<and> smallParts s' = [] \<and> bigParts s' = []
          \<and> refCount (heap s' 2) = 0 \<and> refCount (heap s' 3) = 0"
    by (rule exI)
  have m0: "RowsCount (fst (snd (fst (mergeBlockStreams mem_env_deleted ''/big/2023_07/tmp/0000000000000001''
          [FromFilePart ''/small/2023_07/a'', FromFilePart ''/small/2023_07/b''] True
          (fs state_two @ [(''/big/2023_07/tmp/0000000000000001'', [])]))))) = 0"
    by simp
  from readers m0 txn ex show ?thesis by (intro conjI)
qed

end
